theory Spec2Isabelle
  imports Main "HOL-Library.List_Lexorder" "HOL-Library.Char_ord"
begin

section \<open>Data model: the tables of the ride-pool store\<close>

text \<open>
  The schema shipped with the repository declares
  \<^verbatim>\<open>rides(id VARCHAR PRIMARY KEY, user_id, origin, destination, date DATE, time TIME,
        seats_available INT NOT NULL, status ENUM('open','full','completed','canceled') DEFAULT 'open')\<close>
  and
  \<^verbatim>\<open>bookings(id VARCHAR PRIMARY KEY, user_id, ride_id, seats INT NOT NULL,
           status ENUM('pending','confirmed','cancelled') DEFAULT 'pending')\<close>.
  The columns of \<^verbatim>\<open>ride_requests\<close> are those the handlers in
  \<^verbatim>\<open>routes/rideAgreements.js\<close> read and write
  (\<^verbatim>\<open>id, ride_id, passenger_id, driver_id, vehicle_id, status\<close>).
  An ENUM column is a datatype, an INT column is an \<open>int\<close> (signed, so it can be
  negative), identifiers are strings. DATE and TIME values are kept as the text the store
  prints them as.
\<close>

datatype ride_status = RideOpen | RideFull | RideCompleted | RideCanceled

datatype booking_status = BookingPending | BookingConfirmed | BookingCancelled

datatype request_status = RequestPending | RequestAccepted | RequestRejected

record ride =
  ride_id :: string
  ride_user_id :: string
  origin :: string
  destination :: string
  ride_date :: string
  ride_time :: string
  seats_available :: int
  ride_status :: ride_status

record booking =
  booking_id :: string
  booking_user_id :: string
  booking_ride_id :: string
  booking_seats :: int
  booking_status :: booking_status

record ride_request =
  request_id :: string
  request_ride_id :: string
  request_passenger_id :: string
  request_driver_id :: string
  request_vehicle_id :: string
  request_status :: request_status

text \<open>The store: one list of rows per table, in insertion order.\<close>

record db =
  rides :: "ride list"
  bookings :: "booking list"
  ride_requests :: "ride_request list"

subsection \<open>The three statements the handlers send to the store\<close>

text \<open>\<^verbatim>\<open>SELECT * FROM t WHERE w\<close>: the rows that satisfy \<open>w\<close>, in table order.\<close>

definition sql_select :: "('r \<Rightarrow> bool) \<Rightarrow> 'r list \<Rightarrow> 'r list" where
  "sql_select w t = filter w t"

text \<open>\<^verbatim>\<open>UPDATE t SET s WHERE w\<close>: every row that satisfies \<open>w\<close> is rewritten by \<open>s\<close>.\<close>

definition sql_update :: "('r \<Rightarrow> 'r) \<Rightarrow> ('r \<Rightarrow> bool) \<Rightarrow> 'r list \<Rightarrow> 'r list" where
  "sql_update s w t = map (\<lambda>r. if w r then s r else r) t"

text \<open>\<^verbatim>\<open>INSERT INTO t VALUES row\<close>.\<close>

definition sql_insert :: "'r \<Rightarrow> 'r list \<Rightarrow> 'r list" where
  "sql_insert row t = t @ [row]"

subsection \<open>Responses\<close>

text \<open>
  Each early return of a handler is one error kind of the specification:
  \<^item> \<open>InvalidInput\<close>: 400, \<^verbatim>\<open>'Ride ID and number of seats are required.'\<close>
  \<^item> \<open>NotFound\<close>: 404, \<^verbatim>\<open>'Ride not found.'\<close>
  \<^item> \<open>InvalidState\<close>: 400, \<^verbatim>\<open>'This ride has been completed.'\<close> (or \<^verbatim>\<open>canceled\<close>)
  \<^item> \<open>CapacityExceeded\<close>: 400, \<^verbatim>\<open>'Not enough seats available.'\<close>
  \<^item> \<open>DuplicateBooking\<close>: 400, \<^verbatim>\<open>'You already have a confirmed booking for this ride.'\<close>
  \<^item> \<open>Forbidden\<close>: 403, \<^verbatim>\<open>'Ride not found or not yours to cancel'\<close> in cancel-ride,
    \<^verbatim>\<open>'Unauthorized action'\<close> in accepted and rejected
  \<^item> \<open>Internal\<close>: 500, the \<^verbatim>\<open>catch\<close> block.
\<close>

datatype error =
  InvalidInput | NotFound | InvalidState | CapacityExceeded | DuplicateBooking
  | Forbidden | Internal

datatype response = Success | Failure error

section \<open>Seat Ledger: \<^verbatim>\<open>routes/rideRoutes.js\<close>\<close>

subsection \<open>\<^verbatim>\<open>POST /book-ride\<close>\<close>

text \<open>
  The request body. A field that is absent from the JSON is \<open>None\<close>. JavaScript's
  \<^verbatim>\<open>!rideId\<close> holds for an absent field and for the empty string, \<^verbatim>\<open>!seats\<close> for an absent
  field and for 0.
\<close>

record book_body =
  rideId :: "string option"
  seats :: "int option"

definition not_rideId :: "string option \<Rightarrow> bool" where
  "not_rideId v = (case v of None \<Rightarrow> True | Some s \<Rightarrow> s = [])"

definition not_seats :: "int option \<Rightarrow> bool" where
  "not_seats v = (case v of None \<Rightarrow> True | Some n \<Rightarrow> n = 0)"

text \<open>
  The handler, statement by statement. \<open>uuid\<close> is the value of \<^verbatim>\<open>uuidv4()\<close>, \<open>userId\<close> is
  \<^verbatim>\<open>req.user.id\<close>. The result is the response and the store after the call. Reading
  \<^verbatim>\<open>updatedRide[0]\<close> of an empty result throws, which the \<^verbatim>\<open>catch\<close> block turns into a 500
  after the two writes before it.
\<close>

definition book :: "db \<Rightarrow> string \<Rightarrow> string \<Rightarrow> book_body \<Rightarrow> response \<times> db" where
  "book d uuid userId body =
    (if not_rideId (rideId body) \<or> not_seats (seats body) then (Failure InvalidInput, d)
     else case (rideId body, seats body) of
       (Some rid, Some n) \<Rightarrow>
         (case sql_select (\<lambda>r. ride_id r = rid) (rides d) of
            [] \<Rightarrow> (Failure NotFound, d)
          | rideDetails # _ \<Rightarrow>
              if ride_status rideDetails \<in> set [RideCompleted, RideCanceled]
              then (Failure InvalidState, d)
              else if seats_available rideDetails < n
              then (Failure CapacityExceeded, d)
              else
                let existingBooking =
                      sql_select (\<lambda>b. booking_user_id b = userId \<and> booking_ride_id b = rid
                                       \<and> booking_status b = BookingConfirmed) (bookings d)
                in if length existingBooking > 0 then (Failure DuplicateBooking, d)
                   else
                     let d1 = d\<lparr>bookings := sql_insert
                                 \<lparr>booking_id = uuid, booking_user_id = userId,
                                  booking_ride_id = rid, booking_seats = n,
                                  booking_status = BookingPending\<rparr> (bookings d)\<rparr>;
                         d2 = d1\<lparr>rides := sql_update
                                 (\<lambda>r. r\<lparr>seats_available := seats_available r - n\<rparr>)
                                 (\<lambda>r. ride_id r = rid) (rides d1)\<rparr>
                     in (case sql_select (\<lambda>r. ride_id r = rid) (rides d2) of
                           [] \<Rightarrow> (Failure Internal, d2)
                         | updatedRide # _ \<Rightarrow>
                             if seats_available updatedRide = 0
                             then (Success, d2\<lparr>rides := sql_update
                                     (\<lambda>r. r\<lparr>ride_status := RideFull\<rparr>)
                                     (\<lambda>r. ride_id r = rid) (rides d2)\<rparr>)
                             else (Success, d2)))
     | _ \<Rightarrow> (Failure InvalidInput, d))"

subsection \<open>The statements of one booking, one at a time\<close>

text \<open>
  The handler sends its statements to the store one \<^verbatim>\<open>await pool.execute\<close> at a time, with no
  transaction around them, so the store may run statements of other requests between two of
  them. \<open>book_pc\<close> is the statement a request sends next, with the \<^verbatim>\<open>rideId\<close> and \<^verbatim>\<open>seats\<close> it
  carries; \<open>book_step\<close> runs that one statement and the JavaScript up to the next \<^verbatim>\<open>await\<close> or
  to the response.
\<close>

datatype book_pc =
  SelectRide
  | SelectExisting string int
  | InsertBooking string int
  | UpdateSeats string int
  | SelectUpdated string int
  | UpdateStatus string
  | Responded response

definition book_step :: "db \<Rightarrow> string \<Rightarrow> string \<Rightarrow> book_body \<Rightarrow> book_pc \<Rightarrow> book_pc \<times> db" where
  "book_step d uuid userId body pc =
    (case pc of
       SelectRide \<Rightarrow>
         if not_rideId (rideId body) \<or> not_seats (seats body)
         then (Responded (Failure InvalidInput), d)
         else (case (rideId body, seats body) of
           (Some rid, Some n) \<Rightarrow>
             (case sql_select (\<lambda>r. ride_id r = rid) (rides d) of
                [] \<Rightarrow> (Responded (Failure NotFound), d)
              | rideDetails # _ \<Rightarrow>
                  if ride_status rideDetails \<in> set [RideCompleted, RideCanceled]
                  then (Responded (Failure InvalidState), d)
                  else if seats_available rideDetails < n
                  then (Responded (Failure CapacityExceeded), d)
                  else (SelectExisting rid n, d))
         | _ \<Rightarrow> (Responded (Failure InvalidInput), d))
     | SelectExisting rid n \<Rightarrow>
         (let existingBooking =
                sql_select (\<lambda>b. booking_user_id b = userId \<and> booking_ride_id b = rid
                                 \<and> booking_status b = BookingConfirmed) (bookings d)
          in if length existingBooking > 0 then (Responded (Failure DuplicateBooking), d)
             else (InsertBooking rid n, d))
     | InsertBooking rid n \<Rightarrow>
         (UpdateSeats rid n,
          d\<lparr>bookings := sql_insert
               \<lparr>booking_id = uuid, booking_user_id = userId,
                booking_ride_id = rid, booking_seats = n,
                booking_status = BookingPending\<rparr> (bookings d)\<rparr>)
     | UpdateSeats rid n \<Rightarrow>
         (SelectUpdated rid n,
          d\<lparr>rides := sql_update (\<lambda>r. r\<lparr>seats_available := seats_available r - n\<rparr>)
                       (\<lambda>r. ride_id r = rid) (rides d)\<rparr>)
     | SelectUpdated rid n \<Rightarrow>
         (case sql_select (\<lambda>r. ride_id r = rid) (rides d) of
            [] \<Rightarrow> (Responded (Failure Internal), d)
          | updatedRide # _ \<Rightarrow>
              if seats_available updatedRide = 0 then (UpdateStatus rid, d)
              else (Responded Success, d))
     | UpdateStatus rid \<Rightarrow>
         (Responded Success,
          d\<lparr>rides := sql_update (\<lambda>r. r\<lparr>ride_status := RideFull\<rparr>)
                       (\<lambda>r. ride_id r = rid) (rides d)\<rparr>)
     | Responded res \<Rightarrow> (Responded res, d))"

text \<open>
  \<open>k\<close> statements of one request with nothing in between.
\<close>

fun book_steps :: "nat \<Rightarrow> db \<Rightarrow> string \<Rightarrow> string \<Rightarrow> book_body \<Rightarrow> book_pc \<Rightarrow> book_pc \<times> db" where
  "book_steps 0 d uuid userId body pc = (pc, d)"
| "book_steps (Suc k) d uuid userId body pc =
     (case book_step d uuid userId body pc of (pc', d') \<Rightarrow> book_steps k d' uuid userId body pc')"

text \<open>
  Requests in flight on one store, and a schedule: the list of the requests whose next
  statement the store runs, in the order it runs them.
\<close>

record book_request =
  req_uuid :: string
  req_user :: string
  req_body :: book_body
  req_pc :: book_pc

definition schedule_step :: "db \<times> book_request list \<Rightarrow> nat \<Rightarrow> db \<times> book_request list" where
  "schedule_step s i =
     (case s of (d, rs) \<Rightarrow>
        if i < length rs
        then (case book_step d (req_uuid (rs ! i)) (req_user (rs ! i)) (req_body (rs ! i))
                     (req_pc (rs ! i)) of
                (pc', d') \<Rightarrow> (d', rs[i := (rs ! i)\<lparr>req_pc := pc'\<rparr>]))
        else (d, rs))"

definition interleave :: "db \<Rightarrow> book_request list \<Rightarrow> nat list \<Rightarrow> db \<times> book_request list" where
  "interleave d rs sched = foldl schedule_step (d, rs) sched"

subsection \<open>\<^verbatim>\<open>POST /cancel-ride\<close>\<close>

definition cancel_ride :: "db \<Rightarrow> string \<Rightarrow> string \<Rightarrow> response \<times> db" where
  "cancel_ride d userId rid =
    (let ride = sql_select (\<lambda>r. ride_id r = rid \<and> ride_user_id r = userId) (rides d)
     in if length ride = 0 then (Failure Forbidden, d)
        else (Success, d\<lparr>rides := sql_update (\<lambda>r. r\<lparr>ride_status := RideCanceled\<rparr>)
                                   (\<lambda>r. ride_id r = rid) (rides d)\<rparr>))"

section \<open>Lifecycle Sweeper: the \<^verbatim>\<open>cron.schedule\<close> job of \<^verbatim>\<open>api.js\<close>\<close>

text \<open>
  \<^verbatim>\<open>UPDATE rides SET status = 'completed'
  WHERE CONCAT(date, ' ', time) < NOW() AND status NOT IN ('completed', 'canceled')\<close>.
  The store's clock and its comparison of a date-time text with \<^verbatim>\<open>NOW()\<close> are the
  parameter \<open>before_now\<close>: \<open>before_now s\<close> says that \<open>s\<close> lies strictly before the moment of
  the run.
\<close>

definition scheduled :: "ride \<Rightarrow> string" where
  "scheduled r = ride_date r @ '' '' @ ride_time r"

definition sweeper :: "(string \<Rightarrow> bool) \<Rightarrow> db \<Rightarrow> db" where
  "sweeper before_now d =
     d\<lparr>rides := sql_update (\<lambda>r. r\<lparr>ride_status := RideCompleted\<rparr>)
                  (\<lambda>r. before_now (scheduled r)
                        \<and> ride_status r \<notin> set [RideCompleted, RideCanceled]) (rides d)\<rparr>"

text \<open>
  The store's \<^verbatim>\<open>s < NOW()\<close> at the moment when \<^verbatim>\<open>NOW()\<close> prints as \<open>now\<close>. Both sides are
  date-time texts \<^verbatim>\<open>YYYY-MM-DD HH:MM:SS\<close>, zero-padded, which are ordered as the moments
  they denote; the cron job is \<open>sweeper (store_before now)\<close>.
\<close>

definition store_before :: "string \<Rightarrow> string \<Rightarrow> bool" where
  "store_before now s = (s < now)"

section \<open>Booking Negotiator: \<^verbatim>\<open>routes/rideAgreements.js\<close>\<close>

text \<open>\<^verbatim>\<open>POST /accepted\<close> and \<^verbatim>\<open>POST /rejected\<close>; \<open>driver_id\<close> is \<^verbatim>\<open>req.user.id\<close>.\<close>

definition accepted :: "db \<Rightarrow> string \<Rightarrow> string \<Rightarrow> response \<times> db" where
  "accepted d driver_id rq =
    (let existingRequest =
           sql_select (\<lambda>q. request_id q = rq \<and> request_driver_id q = driver_id) (ride_requests d)
     in if length existingRequest = 0 then (Failure Forbidden, d)
        else (Success, d\<lparr>ride_requests := sql_update (\<lambda>q. q\<lparr>request_status := RequestAccepted\<rparr>)
                                           (\<lambda>q. request_id q = rq) (ride_requests d)\<rparr>))"

definition rejected :: "db \<Rightarrow> string \<Rightarrow> string \<Rightarrow> response \<times> db" where
  "rejected d driver_id rq =
    (let existingRequest =
           sql_select (\<lambda>q. request_id q = rq \<and> request_driver_id q = driver_id) (ride_requests d)
     in if length existingRequest = 0 then (Failure Forbidden, d)
        else (Success, d\<lparr>ride_requests := sql_update (\<lambda>q. q\<lparr>request_status := RequestRejected\<rparr>)
                                           (\<lambda>q. request_id q = rq) (ride_requests d)\<rparr>))"

section \<open>Histories of calls\<close>

text \<open>
  The store is the only state. A history is a list of calls that do not overlap: each
  handler runs all its statements before the next call starts.
\<close>

datatype call =
  Book string string book_body
  | CancelRide string string
  | Sweep "string \<Rightarrow> bool"

fun step :: "db \<Rightarrow> call \<Rightarrow> db" where
  "step d (Book uuid userId body) = snd (book d uuid userId body)"
| "step d (CancelRide userId rid) = snd (cancel_ride d userId rid)"
| "step d (Sweep before_now) = sweeper before_now d"

definition run :: "db \<Rightarrow> call list \<Rightarrow> db" where
  "run d cs = foldl step d cs"

text \<open>
  A request as a call, and the schedule that runs the first \<open>k\<close> requests one after the
  other, each with its six statements in a row.
\<close>

definition call_of :: "book_request \<Rightarrow> call" where
  "call_of q = Book (req_uuid q) (req_user q) (req_body q)"

definition one_by_one :: "nat \<Rightarrow> nat list" where
  "one_by_one k = concat (map (replicate 6) [0..<k])"

text \<open>The seats booked on a ride: the sum of \<^verbatim>\<open>seats\<close> over its bookings that are not cancelled.\<close>

definition booked_seats :: "db \<Rightarrow> string \<Rightarrow> int" where
  "booked_seats d rid =
     sum_list (map booking_seats
       (sql_select (\<lambda>b. booking_ride_id b = rid \<and> booking_status b \<noteq> BookingCancelled)
          (bookings d)))"

text \<open>The caller holds a confirmed booking on the ride.\<close>

definition holds_confirmed :: "db \<Rightarrow> string \<Rightarrow> string \<Rightarrow> bool" where
  "holds_confirmed d userId rid =
     (\<exists>b\<in>set (bookings d). booking_user_id b = userId \<and> booking_ride_id b = rid
         \<and> booking_status b = BookingConfirmed)"

text \<open>
  The ledger invariant of the ride \<open>rid\<close> of capacity \<open>cap\<close>: ride identifiers are unique
  (the primary key), and the seats still available plus the seats booked are the capacity.
\<close>

definition ledger_inv :: "string \<Rightarrow> int \<Rightarrow> db \<Rightarrow> bool" where
  "ledger_inv rid cap d =
     (distinct (map ride_id (rides d)) \<and>
      (\<exists>i<length (rides d). ride_id (rides d ! i) = rid \<and> 0 \<le> seats_available (rides d ! i)
          \<and> seats_available (rides d ! i) + booked_seats d rid = cap))"

section \<open>Example rows\<close>

text \<open>A ride from Nairobi to Mombasa, as in the README, used in the checked scenarios.\<close>

definition ride_row :: "string \<Rightarrow> string \<Rightarrow> string \<Rightarrow> string \<Rightarrow> int \<Rightarrow> ride_status \<Rightarrow> ride" where
  "ride_row i u dt tm n st =
     \<lparr>ride_id = i, ride_user_id = u, origin = ''Nairobi'', destination = ''Mombasa'',
      ride_date = dt, ride_time = tm, seats_available = n, ride_status = st\<rparr>"

section \<open>The store's statements on a table with a key\<close>

lemma select_key:
  "distinct (map k t) \<Longrightarrow> r \<in> set t \<Longrightarrow> sql_select (\<lambda>x. k x = k r) t = [r]"
  unfolding sql_select_def
proof (induction t)
  case Nil
  then show ?case by simp
next
  case (Cons a t)
  show ?case
  proof (cases "a = r")
    case True
    with Cons.prems have "\<forall>x\<in>set t. k x \<noteq> k r" by (auto simp: image_iff)
    then have "filter (\<lambda>x. k x = k r) t = []" by (simp add: filter_empty_conv)
    with True show ?thesis by simp
  next
    case False
    with Cons.prems have "r \<in> set t" "k a \<noteq> k r" by (auto simp: image_iff)
    with Cons show ?thesis by simp
  qed
qed

lemma select_nth:
  "distinct (map k t) \<Longrightarrow> i < length t \<Longrightarrow> sql_select (\<lambda>x. k x = k (t ! i)) t = [t ! i]"
  by (rule select_key) simp_all

lemma update_nth:
  "distinct (map k t) \<Longrightarrow> i < length t \<Longrightarrow>
   sql_update s (\<lambda>x. k x = k (t ! i)) t = t[i := s (t ! i)]"
  unfolding sql_update_def
  by (rule nth_equalityI) (auto simp: nth_list_update distinct_conv_nth)

lemma distinct_key_update:
  "distinct (map k t) \<Longrightarrow> i < length t \<Longrightarrow> k v = k (t ! i) \<Longrightarrow> distinct (map k (t[i := v]))"
  by (simp add: map_update list_update_same_conv [THEN iffD2])

lemma select_updated:
  assumes "distinct (map k t)" "i < length t" "k v = k (t ! i)"
  shows "sql_select (\<lambda>x. k x = k (t ! i)) (t[i := v]) = [v]"
proof -
  have "sql_select (\<lambda>x. k x = k (t[i := v] ! i)) (t[i := v]) = [t[i := v] ! i]"
    by (rule select_nth) (simp_all add: distinct_key_update assms)
  then show ?thesis using assms by simp
qed

lemma update_updated:
  assumes "distinct (map k t)" "i < length t" "k v = k (t ! i)"
  shows "sql_update s (\<lambda>x. k x = k (t ! i)) (t[i := v]) = t[i := s v]"
proof -
  have "sql_update s (\<lambda>x. k x = k (t[i := v] ! i)) (t[i := v]) = t[i := v, i := s (t[i := v] ! i)]"
    by (rule update_nth) (simp_all add: distinct_key_update assms)
  then show ?thesis using assms by simp
qed

lemma select_empty: "\<forall>x\<in>set t. \<not> w x \<Longrightarrow> sql_select w t = []"
  by (simp add: sql_select_def filter_empty_conv)

lemma select_nonempty: "x \<in> set t \<Longrightarrow> w x \<Longrightarrow> sql_select w t \<noteq> []"
  by (auto simp: sql_select_def filter_empty_conv)

lemma update_skips: "\<not> w r \<Longrightarrow> r \<in> set t \<Longrightarrow> r \<in> set (sql_update s w t)"
  by (force simp: sql_update_def)

lemma update_hits: "w r \<Longrightarrow> r \<in> set t \<Longrightarrow> s r \<in> set (sql_update s w t)"
  by (force simp: sql_update_def)

section \<open>What a booking does\<close>

lemma book_guards_pass:
  assumes keys: "distinct (map ride_id (rides d))"
    and i: "i < length (rides d)"
    and body: "rideId body = Some (ride_id (rides d ! i))" "seats body = Some n"
    and input: "ride_id (rides d ! i) \<noteq> []" "n \<noteq> 0"
    and live: "ride_status (rides d ! i) \<noteq> RideCompleted" "ride_status (rides d ! i) \<noteq> RideCanceled"
    and room: "n \<le> seats_available (rides d ! i)"
    and nodup: "\<forall>b\<in>set (bookings d). \<not> (booking_user_id b = userId
                 \<and> booking_ride_id b = ride_id (rides d ! i) \<and> booking_status b = BookingConfirmed)"
  shows "book d uuid userId body =
     (Success,
      d\<lparr>bookings := bookings d @ [\<lparr>booking_id = uuid, booking_user_id = userId,
             booking_ride_id = ride_id (rides d ! i), booking_seats = n,
             booking_status = BookingPending\<rparr>],
        rides := (rides d)[i := (rides d ! i)
           \<lparr>seats_available := seats_available (rides d ! i) - n,
            ride_status := (if seats_available (rides d ! i) - n = 0 then RideFull
                            else ride_status (rides d ! i))\<rparr>]\<rparr>)"
proof -
  have dup: "sql_select (\<lambda>b. booking_user_id b = userId \<and> booking_ride_id b = ride_id (rides d ! i)
                \<and> booking_status b = BookingConfirmed) (bookings d) = []"
    using nodup by (simp add: sql_select_def filter_empty_conv)
  show ?thesis
    using keys i body input live room
    by (simp add: book_def not_rideId_def not_seats_def dup sql_insert_def Let_def
          select_nth update_nth select_updated update_updated)
qed

lemma book_cases:
  assumes keys: "distinct (map ride_id (rides d))"
  shows "snd (book d uuid userId body) = d \<or>
    (\<exists>i n. i < length (rides d) \<and> rideId body = Some (ride_id (rides d ! i)) \<and> seats body = Some n
       \<and> n \<le> seats_available (rides d ! i)
       \<and> ride_status (rides d ! i) \<noteq> RideCompleted \<and> ride_status (rides d ! i) \<noteq> RideCanceled
       \<and> book d uuid userId body =
          (Success,
           d\<lparr>bookings := bookings d @ [\<lparr>booking_id = uuid, booking_user_id = userId,
                 booking_ride_id = ride_id (rides d ! i), booking_seats = n,
                 booking_status = BookingPending\<rparr>],
             rides := (rides d)[i := (rides d ! i)
               \<lparr>seats_available := seats_available (rides d ! i) - n,
                ride_status := (if seats_available (rides d ! i) - n = 0 then RideFull
                                else ride_status (rides d ! i))\<rparr>]\<rparr>))"
proof (cases "not_rideId (rideId body) \<or> not_seats (seats body)")
  case True
  then show ?thesis by (simp add: book_def)
next
  case False
  then obtain rid n where body: "rideId body = Some rid" "seats body = Some n"
    and input: "rid \<noteq> []" "n \<noteq> 0"
    by (auto simp: not_rideId_def not_seats_def split: option.splits)
  show ?thesis
  proof (cases "\<exists>i<length (rides d). ride_id (rides d ! i) = rid")
    case False
    then have "\<forall>x\<in>set (rides d). ride_id x \<noteq> rid" by (auto simp: in_set_conv_nth)
    then have "sql_select (\<lambda>r. ride_id r = rid) (rides d) = []" by (rule select_empty)
    with body input show ?thesis by (simp add: book_def not_rideId_def not_seats_def)
  next
    case True
    then obtain i where i: "i < length (rides d)" and rid: "ride_id (rides d ! i) = rid" by blast
    have sel: "sql_select (\<lambda>r. ride_id r = rid) (rides d) = [rides d ! i]"
      using select_nth [OF keys i] rid by simp
    let ?dup = "\<exists>b\<in>set (bookings d). booking_user_id b = userId
        \<and> booking_ride_id b = ride_id (rides d ! i) \<and> booking_status b = BookingConfirmed"
    consider (dead) "ride_status (rides d ! i) = RideCompleted \<or> ride_status (rides d ! i) = RideCanceled"
      | (short) "ride_status (rides d ! i) \<noteq> RideCompleted" "ride_status (rides d ! i) \<noteq> RideCanceled"
          "seats_available (rides d ! i) < n"
      | (dup) "ride_status (rides d ! i) \<noteq> RideCompleted" "ride_status (rides d ! i) \<noteq> RideCanceled"
          "n \<le> seats_available (rides d ! i)" ?dup
      | (ok) "ride_status (rides d ! i) \<noteq> RideCompleted" "ride_status (rides d ! i) \<noteq> RideCanceled"
          "n \<le> seats_available (rides d ! i)" "\<not> ?dup"
      by fastforce
    then show ?thesis
    proof cases
      case dead
      with body input sel show ?thesis by (auto simp: book_def not_rideId_def not_seats_def)
    next
      case short
      with body input sel show ?thesis by (simp add: book_def not_rideId_def not_seats_def)
    next
      case dup
      then obtain b where "b \<in> set (bookings d)" "booking_user_id b = userId
        \<and> booking_ride_id b = rid \<and> booking_status b = BookingConfirmed" using rid by blast
      then have "sql_select (\<lambda>b. booking_user_id b = userId \<and> booking_ride_id b = rid
                \<and> booking_status b = BookingConfirmed) (bookings d) \<noteq> []"
        by (rule select_nonempty)
      with body input sel dup(1-3) show ?thesis
        by (simp add: book_def not_rideId_def not_seats_def Let_def)
    next
      case ok
      have "book d uuid userId body =
          (Success,
           d\<lparr>bookings := bookings d @ [\<lparr>booking_id = uuid, booking_user_id = userId,
                 booking_ride_id = ride_id (rides d ! i), booking_seats = n,
                 booking_status = BookingPending\<rparr>],
             rides := (rides d)[i := (rides d ! i)
               \<lparr>seats_available := seats_available (rides d ! i) - n,
                ride_status := (if seats_available (rides d ! i) - n = 0 then RideFull
                                else ride_status (rides d ! i))\<rparr>]\<rparr>)"
        using keys i body input ok rid by (intro book_guards_pass) simp_all
      with i body rid ok(1-3) show ?thesis by blast
    qed
  qed
qed

subsection \<open>The response of a booking, check by check\<close>

lemma book_invalid:
  "not_rideId (rideId body) \<or> not_seats (seats body) \<Longrightarrow>
   book d uuid userId body = (Failure InvalidInput, d)"
  by (simp add: book_def)

lemma book_not_found:
  assumes "rideId body = Some rid" "seats body = Some n" "rid \<noteq> []" "n \<noteq> 0"
    and "\<forall>r\<in>set (rides d). ride_id r \<noteq> rid"
  shows "book d uuid userId body = (Failure NotFound, d)"
proof -
  from assms(5) have "sql_select (\<lambda>r. ride_id r = rid) (rides d) = []" by (rule select_empty)
  with assms(1-4) show ?thesis by (simp add: book_def not_rideId_def not_seats_def)
qed

lemma book_dead:
  assumes "rideId body = Some (ride_id r)" "seats body = Some n" "ride_id r \<noteq> []" "n \<noteq> 0"
    and keys: "distinct (map ride_id (rides d))" and ride: "r \<in> set (rides d)"
    and dead: "ride_status r = RideCompleted \<or> ride_status r = RideCanceled"
  shows "book d uuid userId body = (Failure InvalidState, d)"
proof -
  have "sql_select (\<lambda>x. ride_id x = ride_id r) (rides d) = [r]"
    using keys ride by (rule select_key)
  with assms(1-4) dead show ?thesis by (auto simp: book_def not_rideId_def not_seats_def)
qed

lemma book_short:
  assumes "rideId body = Some (ride_id r)" "seats body = Some n" "ride_id r \<noteq> []" "n \<noteq> 0"
    and keys: "distinct (map ride_id (rides d))" and ride: "r \<in> set (rides d)"
    and live: "ride_status r \<noteq> RideCompleted" "ride_status r \<noteq> RideCanceled"
    and short: "seats_available r < n"
  shows "book d uuid userId body = (Failure CapacityExceeded, d)"
proof -
  have "sql_select (\<lambda>x. ride_id x = ride_id r) (rides d) = [r]"
    using keys ride by (rule select_key)
  with assms(1-4) live short show ?thesis by (simp add: book_def not_rideId_def not_seats_def)
qed

lemma book_duplicate:
  assumes "rideId body = Some (ride_id r)" "seats body = Some n" "ride_id r \<noteq> []" "n \<noteq> 0"
    and keys: "distinct (map ride_id (rides d))" and ride: "r \<in> set (rides d)"
    and live: "ride_status r \<noteq> RideCompleted" "ride_status r \<noteq> RideCanceled"
    and room: "n \<le> seats_available r"
    and dup: "holds_confirmed d userId (ride_id r)"
  shows "book d uuid userId body = (Failure DuplicateBooking, d)"
proof -
  have sel: "sql_select (\<lambda>x. ride_id x = ride_id r) (rides d) = [r]"
    using keys ride by (rule select_key)
  from dup obtain b where "b \<in> set (bookings d)" "booking_user_id b = userId
        \<and> booking_ride_id b = ride_id r \<and> booking_status b = BookingConfirmed"
    by (auto simp: holds_confirmed_def)
  then have "sql_select (\<lambda>b. booking_user_id b = userId \<and> booking_ride_id b = ride_id r
                \<and> booking_status b = BookingConfirmed) (bookings d) \<noteq> []"
    by (rule select_nonempty)
  with assms(1-4) sel live room show ?thesis
    by (simp add: book_def not_rideId_def not_seats_def Let_def)
qed

lemma book_succeeds:
  assumes "rideId body = Some (ride_id r)" "seats body = Some n" "ride_id r \<noteq> []" "n \<noteq> 0"
    and keys: "distinct (map ride_id (rides d))" and ride: "r \<in> set (rides d)"
    and live: "ride_status r \<noteq> RideCompleted" "ride_status r \<noteq> RideCanceled"
    and room: "n \<le> seats_available r"
    and nodup: "\<not> holds_confirmed d userId (ride_id r)"
  shows "fst (book d uuid userId body) = Success"
proof -
  from ride obtain i where i: "i < length (rides d)" "rides d ! i = r"
    by (auto simp: in_set_conv_nth)
  from nodup have "\<forall>b\<in>set (bookings d). \<not> (booking_user_id b = userId
       \<and> booking_ride_id b = ride_id (rides d ! i) \<and> booking_status b = BookingConfirmed)"
    using i by (simp add: holds_confirmed_def)
  moreover have "rideId body = Some (ride_id (rides d ! i))" "ride_id (rides d ! i) \<noteq> []"
    "ride_status (rides d ! i) \<noteq> RideCompleted" "ride_status (rides d ! i) \<noteq> RideCanceled"
    "n \<le> seats_available (rides d ! i)"
    using assms i by simp_all
  ultimately show ?thesis
    using book_guards_pass [of d i body n userId uuid] keys i(1) assms(2,4) by simp
qed

lemma duplicate_needs_confirmed:
  assumes dup: "fst (book d uuid userId body) = Failure DuplicateBooking"
    and body: "rideId body = Some rid"
  shows "holds_confirmed d userId rid"
proof (rule ccontr)
  assume "\<not> holds_confirmed d userId rid"
  then have "sql_select (\<lambda>b. booking_user_id b = userId \<and> booking_ride_id b = rid
                \<and> booking_status b = BookingConfirmed) (bookings d) = []"
    by (simp add: holds_confirmed_def select_empty)
  with dup body show False
    by (auto simp: book_def Let_def split: if_splits option.splits list.splits)
qed

section \<open>One call is its statements run in a row\<close>

lemma book_atomic:
  "book_steps 6 d uuid userId body SelectRide =
     (Responded (fst (book d uuid userId body)), snd (book d uuid userId body))"
  by (simp add: eval_nat_numeral book_def book_step_def Let_def
        split: option.splits list.splits)

lemma uninterrupted_steps:
  "i < length rs \<Longrightarrow>
   interleave d rs (replicate k i) =
     (snd (book_steps k d (req_uuid (rs ! i)) (req_user (rs ! i)) (req_body (rs ! i)) (req_pc (rs ! i))),
      rs[i := (rs ! i)\<lparr>req_pc :=
         fst (book_steps k d (req_uuid (rs ! i)) (req_user (rs ! i)) (req_body (rs ! i))
                (req_pc (rs ! i)))\<rparr>])"
  unfolding interleave_def
proof (induction k arbitrary: d rs)
  case 0
  then show ?case by simp
next
  case (Suc k)
  obtain pc' d' where st: "book_step d (req_uuid (rs ! i)) (req_user (rs ! i)) (req_body (rs ! i))
      (req_pc (rs ! i)) = (pc', d')" by (cases "book_step d (req_uuid (rs ! i)) (req_user (rs ! i))
      (req_body (rs ! i)) (req_pc (rs ! i))")
  let ?rs = "rs[i := (rs ! i)\<lparr>req_pc := pc'\<rparr>]"
  have len: "i < length ?rs" using Suc.prems by simp
  have "foldl schedule_step (d, rs) (replicate (Suc k) i)
      = foldl schedule_step (d', ?rs) (replicate k i)"
    using Suc.prems st by (simp add: schedule_step_def)
  also note Suc.IH [OF len, of d']
  finally show ?case using Suc.prems st by simp
qed

lemma uninterrupted_request:
  assumes "i < length rs" "req_pc (rs ! i) = SelectRide"
  shows "interleave d rs (replicate 6 i) =
     (snd (book d (req_uuid (rs ! i)) (req_user (rs ! i)) (req_body (rs ! i))),
      rs[i := (rs ! i)\<lparr>req_pc :=
         Responded (fst (book d (req_uuid (rs ! i)) (req_user (rs ! i)) (req_body (rs ! i))))\<rparr>])"
  using uninterrupted_steps [OF assms(1), of d 6] assms(2) by (simp add: book_atomic)

lemma interleave_append:
  "interleave d rs (s1 @ s2) =
     interleave (fst (interleave d rs s1)) (snd (interleave d rs s1)) s2"
  by (simp add: interleave_def)

lemma one_by_one_prefix:
  assumes fresh: "\<forall>q\<in>set rs. req_pc q = SelectRide"
  shows "k \<le> length rs \<Longrightarrow>
    fst (interleave d rs (one_by_one k)) = run d (map call_of (take k rs))
    \<and> length (snd (interleave d rs (one_by_one k))) = length rs
    \<and> (\<forall>j. k \<le> j \<and> j < length rs \<longrightarrow> snd (interleave d rs (one_by_one k)) ! j = rs ! j)"
proof (induction k)
  case 0
  then show ?case by (simp add: one_by_one_def interleave_def run_def)
next
  case (Suc k)
  let ?s = "interleave d rs (one_by_one k)"
  from Suc have k: "k < length rs" by simp
  with Suc.IH have st: "fst ?s = run d (map call_of (take k rs))"
    and len: "length (snd ?s) = length rs"
    and rest: "\<forall>j. k \<le> j \<and> j < length rs \<longrightarrow> snd ?s ! j = rs ! j" by simp_all
  from rest k have at: "snd ?s ! k = rs ! k" by simp
  with fresh k have pc: "req_pc (snd ?s ! k) = SelectRide" by simp
  have sched: "one_by_one (Suc k) = one_by_one k @ replicate 6 k"
    by (simp add: one_by_one_def)
  have "interleave d rs (one_by_one (Suc k)) = interleave (fst ?s) (snd ?s) (replicate 6 k)"
    unfolding sched by (rule interleave_append)
  also have "\<dots> = (snd (book (fst ?s) (req_uuid (rs ! k)) (req_user (rs ! k)) (req_body (rs ! k))),
      (snd ?s)[k := (rs ! k)\<lparr>req_pc :=
         Responded (fst (book (fst ?s) (req_uuid (rs ! k)) (req_user (rs ! k)) (req_body (rs ! k))))\<rparr>])"
    using uninterrupted_request [of k "snd ?s" "fst ?s"] k len pc at by simp
  finally have res: "interleave d rs (one_by_one (Suc k)) =
     (snd (book (fst ?s) (req_uuid (rs ! k)) (req_user (rs ! k)) (req_body (rs ! k))),
      (snd ?s)[k := (rs ! k)\<lparr>req_pc :=
         Responded (fst (book (fst ?s) (req_uuid (rs ! k)) (req_user (rs ! k)) (req_body (rs ! k))))\<rparr>])" .
  have "run d (map call_of (take (Suc k) rs)) = step (run d (map call_of (take k rs))) (call_of (rs ! k))"
    using k by (simp add: run_def take_Suc_conv_app_nth)
  with st have "fst (interleave d rs (one_by_one (Suc k))) = run d (map call_of (take (Suc k) rs))"
    unfolding res by (simp add: call_of_def)
  moreover have "length (snd (interleave d rs (one_by_one (Suc k)))) = length rs"
    unfolding res using len by simp
  moreover have "\<forall>j. Suc k \<le> j \<and> j < length rs \<longrightarrow>
      snd (interleave d rs (one_by_one (Suc k))) ! j = rs ! j"
    unfolding res using rest by simp
  ultimately show ?case by blast
qed

lemma run_is_one_by_one:
  assumes "\<forall>q\<in>set rs. req_pc q = SelectRide"
  shows "fst (interleave d rs (one_by_one (length rs))) = run d (map call_of rs)"
  using one_by_one_prefix [OF assms, of "length rs" d] by simp

section \<open>The ledger invariant\<close>

lemma update_keeps_column:
  "(\<And>r. f (s r) = f r) \<Longrightarrow> map f (sql_update s w t) = map f t"
  by (simp add: sql_update_def)

lemma update_keeps_length: "length (sql_update s w t) = length t"
  by (simp add: sql_update_def)

lemma column_nth:
  "map f t' = map f t \<Longrightarrow> i < length t \<Longrightarrow> f (t' ! i) = f (t ! i)"
  by (metis length_map nth_map)

lemma ledger_inv_book:
  assumes inv: "ledger_inv rid cap d"
  shows "ledger_inv rid cap (snd (book d uuid userId body))"
proof -
  from inv have keys: "distinct (map ride_id (rides d))" by (simp add: ledger_inv_def)
  from inv obtain i where i: "i < length (rides d)" and rid: "ride_id (rides d ! i) = rid"
    and pos: "0 \<le> seats_available (rides d ! i)"
    and sum: "seats_available (rides d ! i) + booked_seats d rid = cap"
    by (auto simp: ledger_inv_def)
  consider (same) "snd (book d uuid userId body) = d"
    | (written) j n where "j < length (rides d)" "n \<le> seats_available (rides d ! j)"
        "snd (book d uuid userId body) =
           d\<lparr>bookings := bookings d @ [\<lparr>booking_id = uuid, booking_user_id = userId,
                 booking_ride_id = ride_id (rides d ! j), booking_seats = n,
                 booking_status = BookingPending\<rparr>],
             rides := (rides d)[j := (rides d ! j)
               \<lparr>seats_available := seats_available (rides d ! j) - n,
                ride_status := (if seats_available (rides d ! j) - n = 0 then RideFull
                                else ride_status (rides d ! j))\<rparr>]\<rparr>"
    using book_cases [OF keys, of uuid userId body] by force
  then show ?thesis
  proof cases
    case same
    with inv show ?thesis by simp
  next
    case (written j n)
    note j = written(1) and room = written(2) and res = written(3)
    let ?d' = "snd (book d uuid userId body)"
    have keys': "distinct (map ride_id (rides ?d'))"
      unfolding res using keys j by (simp add: distinct_key_update)
    have len: "i < length (rides ?d')" unfolding res using i by simp
    show ?thesis
    proof (cases "j = i")
      case True
      have "ride_id (rides ?d' ! i) = rid" "0 \<le> seats_available (rides ?d' ! i)"
        "seats_available (rides ?d' ! i) + booked_seats ?d' rid = cap"
        unfolding res using True i rid room sum
        by (simp_all add: booked_seats_def sql_select_def)
      with keys' len show ?thesis unfolding ledger_inv_def by blast
    next
      case False
      with keys i j rid have other: "ride_id (rides d ! j) \<noteq> rid"
        by (auto simp: distinct_conv_nth)
      have "ride_id (rides ?d' ! i) = rid" "0 \<le> seats_available (rides ?d' ! i)"
        "seats_available (rides ?d' ! i) + booked_seats ?d' rid = cap"
        unfolding res using False i rid pos sum other
        by (simp_all add: booked_seats_def sql_select_def)
      with keys' len show ?thesis unfolding ledger_inv_def by blast
    qed
  qed
qed

lemma ledger_inv_status_update:
  assumes inv: "ledger_inv rid cap d"
  shows "ledger_inv rid cap (d\<lparr>rides := sql_update (\<lambda>r. r\<lparr>ride_status := st\<rparr>) w (rides d)\<rparr>)"
proof -
  let ?t' = "sql_update (\<lambda>r. r\<lparr>ride_status := st\<rparr>) w (rides d)"
  have ids: "map ride_id ?t' = map ride_id (rides d)"
    and sa: "map seats_available ?t' = map seats_available (rides d)"
    by (simp_all add: update_keeps_column)
  from inv obtain i where i: "i < length (rides d)" and rid: "ride_id (rides d ! i) = rid"
    and pos: "0 \<le> seats_available (rides d ! i)"
    and sum: "seats_available (rides d ! i) + booked_seats d rid = cap"
    by (auto simp: ledger_inv_def)
  have "ride_id (?t' ! i) = rid" "seats_available (?t' ! i) = seats_available (rides d ! i)"
    using column_nth [OF ids i] column_nth [OF sa i] rid by simp_all
  moreover have "booked_seats (d\<lparr>rides := ?t'\<rparr>) rid = booked_seats d rid"
    by (simp add: booked_seats_def)
  moreover have "distinct (map ride_id ?t')" using inv ids by (simp add: ledger_inv_def)
  ultimately show ?thesis
    unfolding ledger_inv_def using i pos sum by (auto simp: update_keeps_length)
qed

lemma ledger_inv_step: "ledger_inv rid cap d \<Longrightarrow> ledger_inv rid cap (step d c)"
proof (cases c)
  case (Book uuid userId body)
  assume "ledger_inv rid cap d"
  then show ?thesis unfolding Book step.simps by (rule ledger_inv_book)
next
  case (CancelRide userId r)
  assume "ledger_inv rid cap d"
  then show ?thesis unfolding CancelRide step.simps
    by (simp add: cancel_ride_def Let_def ledger_inv_status_update)
next
  case (Sweep p)
  assume "ledger_inv rid cap d"
  then show ?thesis unfolding Sweep step.simps
    by (simp add: sweeper_def ledger_inv_status_update)
qed

lemma ledger_inv_run: "ledger_inv rid cap d \<Longrightarrow> ledger_inv rid cap (run d cs)"
  unfolding run_def by (induction cs arbitrary: d) (simp_all add: ledger_inv_step)

subsection \<open>Completed and canceled rides stay as they are\<close>

lemma book_row_written:
  assumes keys: "distinct (map ride_id (rides d))"
  obtains (same) "snd (book d uuid userId body) = d"
    | (written) j v where "j < length (rides d)" "ride_id v = ride_id (rides d ! j)"
        "ride_status (rides d ! j) \<noteq> RideCompleted" "ride_status (rides d ! j) \<noteq> RideCanceled"
        "rides (snd (book d uuid userId body)) = (rides d)[j := v]"
proof -
  from book_cases [OF keys, of uuid userId body] show thesis
  proof (elim disjE exE conjE)
    assume "snd (book d uuid userId body) = d"
    then show thesis by (rule same)
  next
    fix i n
    assume i: "i < length (rides d)"
      and live: "ride_status (rides d ! i) \<noteq> RideCompleted" "ride_status (rides d ! i) \<noteq> RideCanceled"
      and res: "book d uuid userId body =
          (Success,
           d\<lparr>bookings := bookings d @ [\<lparr>booking_id = uuid, booking_user_id = userId,
                 booking_ride_id = ride_id (rides d ! i), booking_seats = n,
                 booking_status = BookingPending\<rparr>],
             rides := (rides d)[i := (rides d ! i)
               \<lparr>seats_available := seats_available (rides d ! i) - n,
                ride_status := (if seats_available (rides d ! i) - n = 0 then RideFull
                                else ride_status (rides d ! i))\<rparr>]\<rparr>)"
    show thesis
      by (rule written [OF i _ live]) (simp_all add: res)
  qed
qed

lemma keys_step:
  assumes keys: "distinct (map ride_id (rides d))"
  shows "distinct (map ride_id (rides (step d c)))"
proof (cases c)
  case (Book uuid userId body)
  from keys show ?thesis
  proof (cases rule: book_row_written [of d uuid userId body])
    case same
    with keys Book show ?thesis by simp
  next
    case (written j v)
    with keys Book show ?thesis by (simp add: distinct_key_update)
  qed
next
  case (CancelRide userId rid)
  with keys show ?thesis by (simp add: cancel_ride_def Let_def update_keeps_column)
next
  case (Sweep p)
  with keys show ?thesis by (simp add: sweeper_def update_keeps_column)
qed

lemma terminal_ride_book:
  assumes keys: "distinct (map ride_id (rides d))"
    and ride: "r \<in> set (rides d)"
    and dead: "ride_status r = RideCompleted \<or> ride_status r = RideCanceled"
  shows "r \<in> set (rides (snd (book d uuid userId body)))"
proof -
  from ride obtain i where i: "i < length (rides d)" "rides d ! i = r"
    by (auto simp: in_set_conv_nth)
  from keys show ?thesis
  proof (cases rule: book_row_written [of d uuid userId body])
    case same
    with ride show ?thesis by simp
  next
    case (written j v)
    with dead i have "j \<noteq> i" by auto
    with i have "(rides d)[j := v] ! i = r" "i < length ((rides d)[j := v])" by simp_all
    then have "r \<in> set ((rides d)[j := v])" by (metis nth_mem)
    with written(5) show ?thesis by simp
  qed
qed

lemma terminal_ride_sweeper:
  assumes ride: "r \<in> set (rides d)"
    and dead: "ride_status r = RideCompleted \<or> ride_status r = RideCanceled"
  shows "r \<in> set (rides (sweeper before_now d))"
proof -
  from dead have "\<not> (before_now (scheduled r) \<and> ride_status r \<notin> set [RideCompleted, RideCanceled])"
    by auto
  then show ?thesis using ride by (simp add: sweeper_def update_skips)
qed

lemma terminal_ride_cancel:
  assumes keys: "distinct (map ride_id (rides d))"
    and ride: "r \<in> set (rides d)"
  shows "(if rid = ride_id r \<and> caller = ride_user_id r then r\<lparr>ride_status := RideCanceled\<rparr> else r)
        \<in> set (rides (snd (cancel_ride d caller rid)))"
proof (cases "rid = ride_id r \<and> caller = ride_user_id r")
  let ?mine = "\<lambda>x. ride_id x = rid \<and> ride_user_id x = caller"
  case True
  with ride have "sql_select ?mine (rides d) \<noteq> []" by (intro select_nonempty [of r]) simp_all
  with True ride show ?thesis
    by (simp add: cancel_ride_def Let_def update_hits)
next
  let ?mine = "\<lambda>x. ride_id x = rid \<and> ride_user_id x = caller"
  case False
  show ?thesis
  proof (cases "sql_select ?mine (rides d) = []")
    case True
    with False ride show ?thesis by (auto simp: cancel_ride_def)
  next
    case nonempty: False
    then obtain x where x: "x \<in> set (rides d)" "ride_id x = rid" "ride_user_id x = caller"
      by (auto simp: sql_select_def filter_empty_conv)
    have "ride_id r \<noteq> rid"
    proof
      assume "ride_id r = rid"
      with keys ride x have "x = r" by (auto simp: distinct_map inj_on_def)
      with x False show False by simp
    qed
    with nonempty ride show ?thesis
      by (auto simp: cancel_ride_def Let_def intro: update_skips)
  qed
qed

lemma terminal_ride_step:
  assumes keys: "distinct (map ride_id (rides d))"
    and ride: "r \<in> set (rides d)"
    and dead: "ride_status r = RideCompleted \<or> ride_status r = RideCanceled"
  shows "r \<in> set (rides (step d c)) \<or> r\<lparr>ride_status := RideCanceled\<rparr> \<in> set (rides (step d c))"
proof (cases c)
  case (Book uuid userId body)
  with terminal_ride_book [OF assms] show ?thesis by simp
next
  case (CancelRide userId rid)
  with terminal_ride_cancel [OF keys ride, of rid userId] show ?thesis
    by (auto split: if_splits)
next
  case (Sweep p)
  with terminal_ride_sweeper [OF ride dead] show ?thesis by simp
qed

lemma terminal_ride_run:
  assumes keys: "distinct (map ride_id (rides d))"
    and ride: "r \<in> set (rides d)"
    and dead: "ride_status r = RideCompleted \<or> ride_status r = RideCanceled"
  shows "r \<in> set (rides (run d calls)) \<or> r\<lparr>ride_status := RideCanceled\<rparr> \<in> set (rides (run d calls))"
  using assms unfolding run_def
proof (induction calls arbitrary: d r)
  case Nil
  then show ?case by simp
next
  case (Cons c cs)
  let ?d = "step d c"
  have keys': "distinct (map ride_id (rides ?d))" using Cons.prems(1) by (rule keys_step)
  from terminal_ride_step [OF Cons.prems, of c]
  show ?case
  proof
    assume "r \<in> set (rides ?d)"
    from Cons.IH [OF keys' this Cons.prems(3)] show ?thesis by simp
  next
    assume "r\<lparr>ride_status := RideCanceled\<rparr> \<in> set (rides ?d)"
    from Cons.IH [OF keys' this] show ?thesis by simp
  qed
qed

subsection \<open>No overbooking\<close>

text \<open>
  Claim C1, for calls that do not overlap and a capacity that is not negative. Take a store
  in which a ride \<open>R\<close> has just been created: ride identifiers are unique, no booking refers
  to \<open>R\<close> yet, and \<open>seats_available R\<close>, its capacity, is not negative. After any history of
  calls that do not overlap (bookings that succeed or fail, and also cancellations and
  sweeper runs) the seats of the non-cancelled bookings of \<open>R\<close> sum to at most that capacity.
  The same holds for booking requests whose statements the store runs one request after
  the other.
\<close>

theorem no_overbooking:
  assumes keys: "distinct (map ride_id (rides d0))"
    and ride: "R \<in> set (rides d0)"
    and cap: "0 \<le> seats_available R"
    and fresh: "\<forall>b\<in>set (bookings d0). booking_ride_id b \<noteq> ride_id R"
  shows "booked_seats (run d0 calls) (ride_id R) \<le> seats_available R
    \<and> ((\<forall>q\<in>set rs. req_pc q = SelectRide) \<longrightarrow>
         booked_seats (fst (interleave d0 rs (one_by_one (length rs)))) (ride_id R)
           \<le> seats_available R)"
proof -
  from ride obtain i where i: "i < length (rides d0)" "rides d0 ! i = R"
    by (auto simp: in_set_conv_nth)
  have "booked_seats d0 (ride_id R) = 0"
    using fresh by (simp add: booked_seats_def select_empty)
  with keys i cap have start: "ledger_inv (ride_id R) (seats_available R) d0"
    unfolding ledger_inv_def by auto
  have bound: "booked_seats (run d0 cs) (ride_id R) \<le> seats_available R" for cs
    using ledger_inv_run [OF start, of cs] unfolding ledger_inv_def by auto
  show ?thesis
  proof (intro conjI impI)
    show "booked_seats (run d0 calls) (ride_id R) \<le> seats_available R" by (rule bound)
  next
    assume "\<forall>q\<in>set rs. req_pc q = SelectRide"
    then have "fst (interleave d0 rs (one_by_one (length rs))) = run d0 (map call_of rs)"
      by (rule run_is_one_by_one)
    with bound show "booked_seats (fst (interleave d0 rs (one_by_one (length rs)))) (ride_id R)
           \<le> seats_available R" by simp
  qed
qed

text \<open>
  The capacity-3 scenario: two seats are booked, a request for two more is refused, then the
  last seat is booked.
\<close>

theorem no_overbooking_witness:
  "booked_seats
     (run \<lparr>rides = [ride_row ''r1'' ''driver'' ''2025-03-10'' ''14:00:00'' 3 RideOpen],
           bookings = [], ride_requests = []\<rparr>
        [Book ''a'' ''alice'' \<lparr>rideId = Some ''r1'', seats = Some 2\<rparr>,
         Book ''b'' ''bob'' \<lparr>rideId = Some ''r1'', seats = Some 2\<rparr>,
         Book ''c'' ''carol'' \<lparr>rideId = Some ''r1'', seats = Some 1\<rparr>]) ''r1'' \<le> 3"
  using no_overbooking
    [of "\<lparr>rides = [ride_row ''r1'' ''driver'' ''2025-03-10'' ''14:00:00'' 3 RideOpen],
           bookings = [], ride_requests = []\<rparr>"
        "ride_row ''r1'' ''driver'' ''2025-03-10'' ''14:00:00'' 3 RideOpen"
        "[Book ''a'' ''alice'' \<lparr>rideId = Some ''r1'', seats = Some 2\<rparr>,
         Book ''b'' ''bob'' \<lparr>rideId = Some ''r1'', seats = Some 2\<rparr>,
         Book ''c'' ''carol'' \<lparr>rideId = Some ''r1'', seats = Some 1\<rparr>]" "[]"]
  by (simp add: ride_row_def)

text \<open>
  Without the two restrictions the bound fails. A ride stored with -5 seats has a capacity
  below its 0 booked seats. And on a ride with 1 seat, when the second request reads the ride
  before the first one has written, both requests pass the capacity check and both are
  answered with success: 2 seats are booked, \<open>seats_available\<close> is -1.
\<close>

theorem overbooking_counterexample:
  "\<not> booked_seats
        (run \<lparr>rides = [ride_row ''r1'' ''driver'' ''2025-03-10'' ''14:00:00'' (- 5) RideOpen],
              bookings = [], ride_requests = []\<rparr> []) ''r1''
      \<le> seats_available (ride_row ''r1'' ''driver'' ''2025-03-10'' ''14:00:00'' (- 5) RideOpen)
   \<and> interleave
        \<lparr>rides = [ride_row ''r1'' ''driver'' ''2025-03-10'' ''14:00:00'' 1 RideOpen],
           bookings = [], ride_requests = []\<rparr>
         [\<lparr>req_uuid = ''a'', req_user = ''alice'',
           req_body = \<lparr>rideId = Some ''r1'', seats = Some 1\<rparr>, req_pc = SelectRide\<rparr>,
          \<lparr>req_uuid = ''b'', req_user = ''bob'',
           req_body = \<lparr>rideId = Some ''r1'', seats = Some 1\<rparr>, req_pc = SelectRide\<rparr>]
         [0, 1, 0, 0, 0, 0, 0, 1, 1, 1, 1]
     = (\<lparr>rides = [ride_row ''r1'' ''driver'' ''2025-03-10'' ''14:00:00'' (- 1) RideFull],
         bookings = [\<lparr>booking_id = ''a'', booking_user_id = ''alice'', booking_ride_id = ''r1'',
                       booking_seats = 1, booking_status = BookingPending\<rparr>,
                     \<lparr>booking_id = ''b'', booking_user_id = ''bob'', booking_ride_id = ''r1'',
                       booking_seats = 1, booking_status = BookingPending\<rparr>],
         ride_requests = []\<rparr>,
        [\<lparr>req_uuid = ''a'', req_user = ''alice'',
          req_body = \<lparr>rideId = Some ''r1'', seats = Some 1\<rparr>, req_pc = Responded Success\<rparr>,
         \<lparr>req_uuid = ''b'', req_user = ''bob'',
          req_body = \<lparr>rideId = Some ''r1'', seats = Some 1\<rparr>, req_pc = Responded Success\<rparr>])
   \<and> \<not> booked_seats
        (fst (interleave
         \<lparr>rides = [ride_row ''r1'' ''driver'' ''2025-03-10'' ''14:00:00'' 1 RideOpen],
           bookings = [], ride_requests = []\<rparr>
         [\<lparr>req_uuid = ''a'', req_user = ''alice'',
           req_body = \<lparr>rideId = Some ''r1'', seats = Some 1\<rparr>, req_pc = SelectRide\<rparr>,
          \<lparr>req_uuid = ''b'', req_user = ''bob'',
           req_body = \<lparr>rideId = Some ''r1'', seats = Some 1\<rparr>, req_pc = SelectRide\<rparr>]
         [0, 1, 0, 0, 0, 0, 0, 1, 1, 1, 1])) ''r1''
      \<le> seats_available (ride_row ''r1'' ''driver'' ''2025-03-10'' ''14:00:00'' 1 RideOpen)"
  by (simp add: run_def booked_seats_def interleave_def schedule_step_def book_step_def
      ride_row_def sql_select_def sql_update_def sql_insert_def not_rideId_def not_seats_def)

section \<open>Booking a ride\<close>

subsection \<open>A booking on a ride that is open or full\<close>

text \<open>
  Claim C2, for a seat count other than 0. A call whose \<^verbatim>\<open>rideId\<close> is missing or empty, or
  whose \<^verbatim>\<open>seats\<close> is missing or 0, fails with \<open>InvalidInput\<close> and the store is unchanged.
  A call with both fields present, a non-empty ride identifier and a seat count other than
  0, on an existing ride that is neither completed nor canceled, by a caller without a
  confirmed booking on it: when the seat count exceeds \<open>seats_available\<close> the call fails
  with \<open>CapacityExceeded\<close> and the store is unchanged; otherwise it succeeds, appends one
  pending booking with that seat count, lowers the ride's \<open>seats_available\<close> by exactly that
  count, sets the ride's status to full when the new value is 0 and leaves the status alone
  when it is not. Every other row and table is unchanged.
\<close>

theorem book_on_live_ride:
  "(not_rideId (rideId body) \<or> not_seats (seats body) \<longrightarrow>
      book d uuid userId body = (Failure InvalidInput, d))
   \<and> (distinct (map ride_id (rides d)) \<and> i < length (rides d)
       \<and> rideId body = Some (ride_id (rides d ! i)) \<and> seats body = Some n
       \<and> ride_id (rides d ! i) \<noteq> [] \<and> n \<noteq> 0
       \<and> ride_status (rides d ! i) \<noteq> RideCompleted \<and> ride_status (rides d ! i) \<noteq> RideCanceled
       \<and> \<not> holds_confirmed d userId (ride_id (rides d ! i))
      \<longrightarrow> book d uuid userId body =
     (if seats_available (rides d ! i) < n then (Failure CapacityExceeded, d)
      else (Success,
        d\<lparr>bookings := bookings d @ [\<lparr>booking_id = uuid, booking_user_id = userId,
               booking_ride_id = ride_id (rides d ! i), booking_seats = n,
               booking_status = BookingPending\<rparr>],
          rides := (rides d)[i := (rides d ! i)
             \<lparr>seats_available := seats_available (rides d ! i) - n,
              ride_status := (if seats_available (rides d ! i) - n = 0 then RideFull
                              else ride_status (rides d ! i))\<rparr>]\<rparr>)))"
proof (intro conjI impI)
  assume "not_rideId (rideId body) \<or> not_seats (seats body)"
  then show "book d uuid userId body = (Failure InvalidInput, d)" by (rule book_invalid)
next
  assume a: "distinct (map ride_id (rides d)) \<and> i < length (rides d)
       \<and> rideId body = Some (ride_id (rides d ! i)) \<and> seats body = Some n
       \<and> ride_id (rides d ! i) \<noteq> [] \<and> n \<noteq> 0
       \<and> ride_status (rides d ! i) \<noteq> RideCompleted \<and> ride_status (rides d ! i) \<noteq> RideCanceled
       \<and> \<not> holds_confirmed d userId (ride_id (rides d ! i))"
  then have keys: "distinct (map ride_id (rides d))" and i: "i < length (rides d)"
    and body: "rideId body = Some (ride_id (rides d ! i))" "seats body = Some n"
    and input: "ride_id (rides d ! i) \<noteq> []" "n \<noteq> 0"
    and live: "ride_status (rides d ! i) \<noteq> RideCompleted" "ride_status (rides d ! i) \<noteq> RideCanceled"
    and nodup: "\<not> holds_confirmed d userId (ride_id (rides d ! i))" by simp_all
  show "book d uuid userId body =
     (if seats_available (rides d ! i) < n then (Failure CapacityExceeded, d)
      else (Success,
        d\<lparr>bookings := bookings d @ [\<lparr>booking_id = uuid, booking_user_id = userId,
               booking_ride_id = ride_id (rides d ! i), booking_seats = n,
               booking_status = BookingPending\<rparr>],
          rides := (rides d)[i := (rides d ! i)
             \<lparr>seats_available := seats_available (rides d ! i) - n,
              ride_status := (if seats_available (rides d ! i) - n = 0 then RideFull
                              else ride_status (rides d ! i))\<rparr>]\<rparr>))"
  proof (cases "seats_available (rides d ! i) < n")
    case True
    from book_short [OF body input keys _ live True] i True show ?thesis by simp
  next
    case False
    then have room: "n \<le> seats_available (rides d ! i)" by simp
    from nodup have "\<forall>b\<in>set (bookings d). \<not> (booking_user_id b = userId
         \<and> booking_ride_id b = ride_id (rides d ! i) \<and> booking_status b = BookingConfirmed)"
      by (simp add: holds_confirmed_def)
    from book_guards_pass [OF keys i body input live room this] False show ?thesis by simp
  qed
qed

text \<open>
  The scenario of the specification on a ride of 3 seats: 2 seats are booked (1 left, still
  open), 2 more are refused with \<open>CapacityExceeded\<close> and nothing changes, 1 seat is booked
  (0 left, full). A request without a seat count is refused with \<open>InvalidInput\<close>.
\<close>

theorem book_on_live_ride_witness:
  "book \<lparr>rides = [ride_row ''r1'' ''driver'' ''2025-03-10'' ''14:00:00'' 3 RideOpen],
      bookings = [], ride_requests = []\<rparr>
      ''a'' ''alice'' \<lparr>rideId = Some ''r1'', seats = Some 2\<rparr>
   = (Success,
      \<lparr>rides = [ride_row ''r1'' ''driver'' ''2025-03-10'' ''14:00:00'' 1 RideOpen],
      bookings = [\<lparr>booking_id = ''a'', booking_user_id = ''alice'', booking_ride_id = ''r1'',
        booking_seats = 2, booking_status = BookingPending\<rparr>], ride_requests = []\<rparr>)
   \<and> book \<lparr>rides = [ride_row ''r1'' ''driver'' ''2025-03-10'' ''14:00:00'' 1 RideOpen],
      bookings = [\<lparr>booking_id = ''a'', booking_user_id = ''alice'', booking_ride_id = ''r1'',
        booking_seats = 2, booking_status = BookingPending\<rparr>], ride_requests = []\<rparr>
      ''b'' ''bob'' \<lparr>rideId = Some ''r1'', seats = Some 2\<rparr>
   = (Failure CapacityExceeded,
      \<lparr>rides = [ride_row ''r1'' ''driver'' ''2025-03-10'' ''14:00:00'' 1 RideOpen],
      bookings = [\<lparr>booking_id = ''a'', booking_user_id = ''alice'', booking_ride_id = ''r1'',
        booking_seats = 2, booking_status = BookingPending\<rparr>], ride_requests = []\<rparr>)
   \<and> book \<lparr>rides = [ride_row ''r1'' ''driver'' ''2025-03-10'' ''14:00:00'' 1 RideOpen],
      bookings = [\<lparr>booking_id = ''a'', booking_user_id = ''alice'', booking_ride_id = ''r1'',
        booking_seats = 2, booking_status = BookingPending\<rparr>], ride_requests = []\<rparr>
      ''c'' ''carol'' \<lparr>rideId = Some ''r1'', seats = Some 1\<rparr>
   = (Success,
      \<lparr>rides = [ride_row ''r1'' ''driver'' ''2025-03-10'' ''14:00:00'' 0 RideFull],
      bookings = [\<lparr>booking_id = ''a'', booking_user_id = ''alice'', booking_ride_id = ''r1'',
        booking_seats = 2, booking_status = BookingPending\<rparr>,
        \<lparr>booking_id = ''c'', booking_user_id = ''carol'', booking_ride_id = ''r1'',
        booking_seats = 1, booking_status = BookingPending\<rparr>], ride_requests = []\<rparr>)
   \<and> book \<lparr>rides = [ride_row ''r1'' ''driver'' ''2025-03-10'' ''14:00:00'' 3 RideOpen],
      bookings = [], ride_requests = []\<rparr>
      ''z'' ''zoe'' \<lparr>rideId = Some ''r1'', seats = None\<rparr>
   = (Failure InvalidInput,
      \<lparr>rides = [ride_row ''r1'' ''driver'' ''2025-03-10'' ''14:00:00'' 3 RideOpen],
      bookings = [], ride_requests = []\<rparr>)"
  using
    book_on_live_ride
      [of "\<lparr>rideId = Some ''r1'', seats = Some 2\<rparr>"
          "\<lparr>rides = [ride_row ''r1'' ''driver'' ''2025-03-10'' ''14:00:00'' 3 RideOpen],
      bookings = [], ride_requests = []\<rparr>"
          "''a''" "''alice''" 0 2]
    book_on_live_ride
      [of "\<lparr>rideId = Some ''r1'', seats = Some 2\<rparr>"
          "\<lparr>rides = [ride_row ''r1'' ''driver'' ''2025-03-10'' ''14:00:00'' 1 RideOpen],
      bookings = [\<lparr>booking_id = ''a'', booking_user_id = ''alice'', booking_ride_id = ''r1'',
        booking_seats = 2, booking_status = BookingPending\<rparr>], ride_requests = []\<rparr>"
          "''b''" "''bob''" 0 2]
    book_on_live_ride
      [of "\<lparr>rideId = Some ''r1'', seats = Some 1\<rparr>"
          "\<lparr>rides = [ride_row ''r1'' ''driver'' ''2025-03-10'' ''14:00:00'' 1 RideOpen],
      bookings = [\<lparr>booking_id = ''a'', booking_user_id = ''alice'', booking_ride_id = ''r1'',
        booking_seats = 2, booking_status = BookingPending\<rparr>], ride_requests = []\<rparr>"
          "''c''" "''carol''" 0 1]
    book_on_live_ride
      [of "\<lparr>rideId = Some ''r1'', seats = None\<rparr>"
          "\<lparr>rides = [ride_row ''r1'' ''driver'' ''2025-03-10'' ''14:00:00'' 3 RideOpen],
      bookings = [], ride_requests = []\<rparr>"
          "''z''" "''zoe''" 0 0]
  by (simp add: ride_row_def holds_confirmed_def not_rideId_def not_seats_def)

text \<open>
  Without that restriction the statement fails for a seat count of 0, which does not exceed
  \<open>seats_available\<close>: the handler's first check \<^verbatim>\<open>!seats\<close> answers 400 before the ride is
  read.
\<close>

theorem book_zero_seats_counterexample:
  "book \<lparr>rides = [ride_row ''r1'' ''driver'' ''2025-03-10'' ''14:00:00'' 3 RideOpen],
         bookings = [], ride_requests = []\<rparr>
      ''a'' ''alice'' \<lparr>rideId = Some ''r1'', seats = Some 0\<rparr>
   = (Failure InvalidInput,
      \<lparr>rides = [ride_row ''r1'' ''driver'' ''2025-03-10'' ''14:00:00'' 3 RideOpen],
       bookings = [], ride_requests = []\<rparr>)"
  by (simp add: book_def not_seats_def)

subsection \<open>A booking on a completed or canceled ride\<close>

text \<open>
  Claim C3, with the order of the checks. A call against a ride that is completed or canceled never
  changes the store. It fails with \<open>InvalidState\<close> when the ride identifier is not empty and
  the seat count is present and not 0; otherwise the required-field check comes first and
  it fails with \<open>InvalidInput\<close>.
\<close>

theorem book_on_terminal_ride:
  assumes keys: "distinct (map ride_id (rides d))"
    and ride: "r \<in> set (rides d)"
    and dead: "ride_status r = RideCompleted \<or> ride_status r = RideCanceled"
    and body: "rideId body = Some (ride_id r)"
  shows "book d uuid userId body =
     (if ride_id r = [] \<or> not_seats (seats body) then Failure InvalidInput
      else Failure InvalidState, d)"
proof (cases "ride_id r = [] \<or> not_seats (seats body)")
  case True
  with body show ?thesis by (auto simp: book_def not_rideId_def)
next
  case False
  then obtain n where n: "seats body = Some n" "n \<noteq> 0"
    by (auto simp: not_seats_def split: option.splits)
  have "sql_select (\<lambda>x. ride_id x = ride_id r) (rides d) = [r]"
    using keys ride by (rule select_key)
  with False body n dead show ?thesis
    by (auto simp: book_def not_rideId_def not_seats_def)
qed

text \<open>
  A completed ride and a canceled ride both refuse a request for 2 seats.
\<close>

theorem book_on_terminal_ride_witness:
  "book \<lparr>rides = [ride_row ''r1'' ''driver'' ''2025-03-10'' ''14:00:00'' 3 RideCompleted],
         bookings = [], ride_requests = []\<rparr>
      ''a'' ''alice'' \<lparr>rideId = Some ''r1'', seats = Some 2\<rparr>
   = (Failure InvalidState,
      \<lparr>rides = [ride_row ''r1'' ''driver'' ''2025-03-10'' ''14:00:00'' 3 RideCompleted],
       bookings = [], ride_requests = []\<rparr>)
   \<and> book \<lparr>rides = [ride_row ''r1'' ''driver'' ''2025-03-10'' ''14:00:00'' 3 RideCanceled],
         bookings = [], ride_requests = []\<rparr>
      ''a'' ''alice'' \<lparr>rideId = Some ''r1'', seats = Some 2\<rparr>
   = (Failure InvalidState,
      \<lparr>rides = [ride_row ''r1'' ''driver'' ''2025-03-10'' ''14:00:00'' 3 RideCanceled],
       bookings = [], ride_requests = []\<rparr>)"
  using
    book_on_terminal_ride
      [of "\<lparr>rides = [ride_row ''r1'' ''driver'' ''2025-03-10'' ''14:00:00'' 3 RideCompleted],
            bookings = [], ride_requests = []\<rparr>"
          "ride_row ''r1'' ''driver'' ''2025-03-10'' ''14:00:00'' 3 RideCompleted"
          "\<lparr>rideId = Some ''r1'', seats = Some 2\<rparr>" "''a''" "''alice''"]
    book_on_terminal_ride
      [of "\<lparr>rides = [ride_row ''r1'' ''driver'' ''2025-03-10'' ''14:00:00'' 3 RideCanceled],
            bookings = [], ride_requests = []\<rparr>"
          "ride_row ''r1'' ''driver'' ''2025-03-10'' ''14:00:00'' 3 RideCanceled"
          "\<lparr>rideId = Some ''r1'', seats = Some 2\<rparr>" "''a''" "''alice''"]
  by (simp add: ride_row_def not_seats_def)

text \<open>
  A request for 0 seats on a completed ride is answered \<open>InvalidInput\<close>, not
  \<open>InvalidState\<close>.
\<close>

theorem book_terminal_zero_seats_counterexample:
  "book \<lparr>rides = [ride_row ''r1'' ''driver'' ''2025-03-10'' ''14:00:00'' 3 RideCompleted],
         bookings = [], ride_requests = []\<rparr>
      ''a'' ''alice'' \<lparr>rideId = Some ''r1'', seats = Some 0\<rparr>
   = (Failure InvalidInput,
      \<lparr>rides = [ride_row ''r1'' ''driver'' ''2025-03-10'' ''14:00:00'' 3 RideCompleted],
       bookings = [], ride_requests = []\<rparr>)"
  by (simp add: book_def not_seats_def)

subsection \<open>Duplicate bookings\<close>

text \<open>
  Claim C4, with the order of the checks. A call fails with \<open>DuplicateBooking\<close> only if the
  caller holds a confirmed booking on the ride. The duplicate check is the last one, and an
  earlier check that fails decides the response whatever bookings the caller holds: a
  missing, empty or zero field gives \<open>InvalidInput\<close>, no ride with the identifier gives
  \<open>NotFound\<close>, a completed or canceled ride gives \<open>InvalidState\<close>, fewer seats than asked for
  give \<open>CapacityExceeded\<close>, each with the store unchanged. When all of them pass, the call
  fails with \<open>DuplicateBooking\<close> (store unchanged) if the caller holds a confirmed booking on
  the ride, and succeeds if not, whatever pending or cancelled bookings the caller has.
\<close>

theorem duplicate_booking_after_guards:
  "(not_rideId (rideId body) \<or> not_seats (seats body) \<longrightarrow>
      book d uuid userId body = (Failure InvalidInput, d))
   \<and> (rideId body = Some rid \<and> seats body = Some n \<and> rid \<noteq> [] \<and> n \<noteq> 0
        \<and> (\<forall>x\<in>set (rides d). ride_id x \<noteq> rid) \<longrightarrow>
      book d uuid userId body = (Failure NotFound, d))
   \<and> (rideId body = Some rid \<and> seats body = Some n \<and> rid \<noteq> [] \<and> n \<noteq> 0
        \<and> distinct (map ride_id (rides d)) \<and> r \<in> set (rides d) \<and> ride_id r = rid \<longrightarrow>
      (ride_status r = RideCompleted \<or> ride_status r = RideCanceled \<longrightarrow>
         book d uuid userId body = (Failure InvalidState, d))
      \<and> (ride_status r \<noteq> RideCompleted \<and> ride_status r \<noteq> RideCanceled
           \<and> seats_available r < n \<longrightarrow>
         book d uuid userId body = (Failure CapacityExceeded, d))
      \<and> (ride_status r \<noteq> RideCompleted \<and> ride_status r \<noteq> RideCanceled
           \<and> n \<le> seats_available r \<longrightarrow>
         book d uuid userId body = (Failure DuplicateBooking, d) \<and> holds_confirmed d userId rid
         \<or> fst (book d uuid userId body) = Success \<and> \<not> holds_confirmed d userId rid))
   \<and> (fst (book d uuid userId body) = Failure DuplicateBooking \<and> rideId body = Some rid \<longrightarrow>
      holds_confirmed d userId rid)"
proof (intro conjI impI)
  assume "not_rideId (rideId body) \<or> not_seats (seats body)"
  then show "book d uuid userId body = (Failure InvalidInput, d)" by (rule book_invalid)
next
  assume "rideId body = Some rid \<and> seats body = Some n \<and> rid \<noteq> [] \<and> n \<noteq> 0
        \<and> (\<forall>x\<in>set (rides d). ride_id x \<noteq> rid)"
  then show "book d uuid userId body = (Failure NotFound, d)"
    by (intro book_not_found [of body rid n]) simp_all
next
  assume "fst (book d uuid userId body) = Failure DuplicateBooking \<and> rideId body = Some rid"
  then show "holds_confirmed d userId rid" by (intro duplicate_needs_confirmed [of d uuid userId body]) simp_all
next
  assume a: "rideId body = Some rid \<and> seats body = Some n \<and> rid \<noteq> [] \<and> n \<noteq> 0
        \<and> distinct (map ride_id (rides d)) \<and> r \<in> set (rides d) \<and> ride_id r = rid"
  then have body: "rideId body = Some (ride_id r)" "seats body = Some n"
    and input: "ride_id r \<noteq> []" "n \<noteq> 0"
    and keys: "distinct (map ride_id (rides d))" and ride: "r \<in> set (rides d)"
    and rid: "ride_id r = rid" by simp_all
  {
    assume "ride_status r = RideCompleted \<or> ride_status r = RideCanceled"
    from book_dead [OF body input keys ride this]
    show "book d uuid userId body = (Failure InvalidState, d)" .
  next
    assume "ride_status r \<noteq> RideCompleted \<and> ride_status r \<noteq> RideCanceled \<and> seats_available r < n"
    then show "book d uuid userId body = (Failure CapacityExceeded, d)"
      by (intro book_short [OF body input keys ride]) simp_all
  next
    assume b: "ride_status r \<noteq> RideCompleted \<and> ride_status r \<noteq> RideCanceled \<and> n \<le> seats_available r"
    show "book d uuid userId body = (Failure DuplicateBooking, d) \<and> holds_confirmed d userId rid
         \<or> fst (book d uuid userId body) = Success \<and> \<not> holds_confirmed d userId rid"
    proof (cases "holds_confirmed d userId rid")
      case True
      with b rid have "book d uuid userId body = (Failure DuplicateBooking, d)"
        by (intro book_duplicate [OF body input keys ride]) simp_all
      with True show ?thesis by simp
    next
      case False
      with b rid have "fst (book d uuid userId body) = Success"
        by (intro book_succeeds [OF body input keys ride]) simp_all
      with False show ?thesis by simp
    qed
  }
qed

text \<open>
  The same passenger books again while the first booking is pending, and is refused once it
  is confirmed; on a completed ride the answer is \<open>InvalidState\<close>, confirmed booking or not.
\<close>

theorem duplicate_booking_after_guards_witness:
  "fst (book \<lparr>rides = [ride_row ''r1'' ''driver'' ''2025-03-10'' ''14:00:00'' 3 RideOpen],
      bookings = [\<lparr>booking_id = ''a'', booking_user_id = ''alice'', booking_ride_id = ''r1'',
        booking_seats = 1, booking_status = BookingPending\<rparr>], ride_requests = []\<rparr>
      ''b'' ''alice'' \<lparr>rideId = Some ''r1'', seats = Some 1\<rparr>) = Success
   \<and> book \<lparr>rides = [ride_row ''r1'' ''driver'' ''2025-03-10'' ''14:00:00'' 3 RideOpen],
      bookings = [\<lparr>booking_id = ''a'', booking_user_id = ''alice'', booking_ride_id = ''r1'',
        booking_seats = 1, booking_status = BookingConfirmed\<rparr>], ride_requests = []\<rparr>
      ''b'' ''alice'' \<lparr>rideId = Some ''r1'', seats = Some 1\<rparr>
    = (Failure DuplicateBooking,
       \<lparr>rides = [ride_row ''r1'' ''driver'' ''2025-03-10'' ''14:00:00'' 3 RideOpen],
      bookings = [\<lparr>booking_id = ''a'', booking_user_id = ''alice'', booking_ride_id = ''r1'',
        booking_seats = 1, booking_status = BookingConfirmed\<rparr>], ride_requests = []\<rparr>)
   \<and> book \<lparr>rides = [ride_row ''r1'' ''driver'' ''2025-03-10'' ''14:00:00'' 3 RideCompleted],
      bookings = [\<lparr>booking_id = ''a'', booking_user_id = ''alice'', booking_ride_id = ''r1'',
        booking_seats = 1, booking_status = BookingConfirmed\<rparr>], ride_requests = []\<rparr>
      ''b'' ''alice'' \<lparr>rideId = Some ''r1'', seats = Some 1\<rparr>
    = (Failure InvalidState,
       \<lparr>rides = [ride_row ''r1'' ''driver'' ''2025-03-10'' ''14:00:00'' 3 RideCompleted],
      bookings = [\<lparr>booking_id = ''a'', booking_user_id = ''alice'', booking_ride_id = ''r1'',
        booking_seats = 1, booking_status = BookingConfirmed\<rparr>], ride_requests = []\<rparr>)"
  using
    duplicate_booking_after_guards
      [of "\<lparr>rideId = Some ''r1'', seats = Some 1\<rparr>"
          "\<lparr>rides = [ride_row ''r1'' ''driver'' ''2025-03-10'' ''14:00:00'' 3 RideOpen],
      bookings = [\<lparr>booking_id = ''a'', booking_user_id = ''alice'', booking_ride_id = ''r1'',
        booking_seats = 1, booking_status = BookingPending\<rparr>], ride_requests = []\<rparr>"
          "''b''" "''alice''" "''r1''" 1 "ride_row ''r1'' ''driver'' ''2025-03-10'' ''14:00:00'' 3 RideOpen"]
    duplicate_booking_after_guards
      [of "\<lparr>rideId = Some ''r1'', seats = Some 1\<rparr>"
          "\<lparr>rides = [ride_row ''r1'' ''driver'' ''2025-03-10'' ''14:00:00'' 3 RideOpen],
      bookings = [\<lparr>booking_id = ''a'', booking_user_id = ''alice'', booking_ride_id = ''r1'',
        booking_seats = 1, booking_status = BookingConfirmed\<rparr>], ride_requests = []\<rparr>"
          "''b''" "''alice''" "''r1''" 1 "ride_row ''r1'' ''driver'' ''2025-03-10'' ''14:00:00'' 3 RideOpen"]
    duplicate_booking_after_guards
      [of "\<lparr>rideId = Some ''r1'', seats = Some 1\<rparr>"
          "\<lparr>rides = [ride_row ''r1'' ''driver'' ''2025-03-10'' ''14:00:00'' 3 RideCompleted],
      bookings = [\<lparr>booking_id = ''a'', booking_user_id = ''alice'', booking_ride_id = ''r1'',
        booking_seats = 1, booking_status = BookingConfirmed\<rparr>], ride_requests = []\<rparr>"
          "''b''" "''alice''" "''r1''" 1 "ride_row ''r1'' ''driver'' ''2025-03-10'' ''14:00:00'' 3 RideCompleted"]
  by (simp add: ride_row_def holds_confirmed_def not_rideId_def not_seats_def)

text \<open>
  A confirmed booking alone does not give \<open>DuplicateBooking\<close> when an earlier check fires: a caller with a confirmed
  booking who asks for 2 seats of a ride with 1 left gets \<open>CapacityExceeded\<close>.
\<close>

theorem duplicate_booking_counterexample:
  "holds_confirmed
      \<lparr>rides = [ride_row ''r1'' ''driver'' ''2025-03-10'' ''14:00:00'' 1 RideOpen],
         bookings = [\<lparr>booking_id = ''a'', booking_user_id = ''alice'', booking_ride_id = ''r1'',
                      booking_seats = 1, booking_status = BookingConfirmed\<rparr>],
         ride_requests = []\<rparr> ''alice'' ''r1''
   \<and> fst (book \<lparr>rides = [ride_row ''r1'' ''driver'' ''2025-03-10'' ''14:00:00'' 1 RideOpen],
         bookings = [\<lparr>booking_id = ''a'', booking_user_id = ''alice'', booking_ride_id = ''r1'',
                      booking_seats = 1, booking_status = BookingConfirmed\<rparr>],
         ride_requests = []\<rparr>
      ''b'' ''alice'' \<lparr>rideId = Some ''r1'', seats = Some 2\<rparr>) = Failure CapacityExceeded"
  by (simp add: holds_confirmed_def book_def not_rideId_def not_seats_def sql_select_def ride_row_def)

subsection \<open>Negative seat counts\<close>

text \<open>
  Claim C6, for a seat count that does not exceed \<open>seats_available\<close>. On an existing ride
  that is neither completed nor canceled, take a call with a negative seat count by a caller
  without a confirmed booking on it. When the seat count is at most \<open>seats_available\<close>, as
  it is whenever \<open>seats_available\<close> is not negative, the capacity check lets the call
  through: it succeeds, a pending booking with the negative count is stored, and
  \<open>seats_available\<close> becomes \<open>seats_available - seats\<close>, strictly more than before. When
  \<open>seats_available\<close> is below the seat count, which takes a negative \<open>seats_available\<close>, the
  call fails with \<open>CapacityExceeded\<close> and the store is unchanged.
\<close>

theorem negative_seats_accepted:
  assumes keys: "distinct (map ride_id (rides d))"
    and i: "i < length (rides d)"
    and body: "rideId body = Some (ride_id (rides d ! i))" "seats body = Some n"
    and input: "ride_id (rides d ! i) \<noteq> []"
    and neg: "n < 0"
    and live: "ride_status (rides d ! i) \<noteq> RideCompleted" "ride_status (rides d ! i) \<noteq> RideCanceled"
    and nodup: "\<not> holds_confirmed d userId (ride_id (rides d ! i))"
  shows "book d uuid userId body =
      (if seats_available (rides d ! i) < n then (Failure CapacityExceeded, d)
       else (Success,
        d\<lparr>bookings := bookings d @ [\<lparr>booking_id = uuid, booking_user_id = userId,
               booking_ride_id = ride_id (rides d ! i), booking_seats = n,
               booking_status = BookingPending\<rparr>],
          rides := (rides d)[i := (rides d ! i)
             \<lparr>seats_available := seats_available (rides d ! i) - n,
              ride_status := (if seats_available (rides d ! i) - n = 0 then RideFull
                              else ride_status (rides d ! i))\<rparr>]\<rparr>))
     \<and> (n \<le> seats_available (rides d ! i) \<longrightarrow>
          seats_available (rides d ! i) < seats_available (rides (snd (book d uuid userId body)) ! i))
     \<and> (0 \<le> seats_available (rides d ! i) \<longrightarrow>
          book d uuid userId body =
           (Success,
            d\<lparr>bookings := bookings d @ [\<lparr>booking_id = uuid, booking_user_id = userId,
                   booking_ride_id = ride_id (rides d ! i), booking_seats = n,
                   booking_status = BookingPending\<rparr>],
              rides := (rides d)[i := (rides d ! i)
                 \<lparr>seats_available := seats_available (rides d ! i) - n\<rparr>]\<rparr>))"
proof -
  from neg have nz: "n \<noteq> 0" by simp
  from nodup have free: "\<forall>b\<in>set (bookings d). \<not> (booking_user_id b = userId
       \<and> booking_ride_id b = ride_id (rides d ! i) \<and> booking_status b = BookingConfirmed)"
    by (simp add: holds_confirmed_def)
  show ?thesis
  proof (cases "seats_available (rides d ! i) < n")
    case True
    from book_short [OF body input nz keys _ live True] i True neg show ?thesis by simp
  next
    case False
    then have room: "n \<le> seats_available (rides d ! i)" by simp
    from book_guards_pass [OF keys i body input nz live room free] False i neg
    show ?thesis by auto
  qed
qed

text \<open>
  Booking -2 seats on a ride with 3 seats leaves it with 5.
\<close>

theorem negative_seats_accepted_witness:
  "book \<lparr>rides = [ride_row ''r1'' ''driver'' ''2025-03-10'' ''14:00:00'' 3 RideOpen],
      bookings = [], ride_requests = []\<rparr> ''a'' ''alice'' \<lparr>rideId = Some ''r1'', seats = Some (- 2)\<rparr>
   = (Success, \<lparr>rides = [ride_row ''r1'' ''driver'' ''2025-03-10'' ''14:00:00'' 5 RideOpen],
      bookings = [\<lparr>booking_id = ''a'', booking_user_id = ''alice'', booking_ride_id = ''r1'',
        booking_seats = (- 2), booking_status = BookingPending\<rparr>], ride_requests = []\<rparr>)
   \<and> seats_available (ride_row ''r1'' ''driver'' ''2025-03-10'' ''14:00:00'' 3 RideOpen)
       < seats_available (ride_row ''r1'' ''driver'' ''2025-03-10'' ''14:00:00'' 5 RideOpen)"
  using negative_seats_accepted [of "\<lparr>rides = [ride_row ''r1'' ''driver'' ''2025-03-10'' ''14:00:00'' 3 RideOpen],
      bookings = [], ride_requests = []\<rparr>" 0 "\<lparr>rideId = Some ''r1'', seats = Some (- 2)\<rparr>" "- 2" "''alice''" "''a''"]
  by (simp add: ride_row_def holds_confirmed_def)

text \<open>
  On a ride stored with -5 seats the capacity check refuses a request for -2 seats.
\<close>

theorem negative_seats_counterexample:
  "book \<lparr>rides = [ride_row ''r1'' ''driver'' ''2025-03-10'' ''14:00:00'' (- 5) RideOpen],
      bookings = [], ride_requests = []\<rparr> ''a'' ''alice'' \<lparr>rideId = Some ''r1'', seats = Some (- 2)\<rparr>
   = (Failure CapacityExceeded, \<lparr>rides = [ride_row ''r1'' ''driver'' ''2025-03-10'' ''14:00:00'' (- 5) RideOpen],
      bookings = [], ride_requests = []\<rparr>)"
  by (simp add: book_def not_rideId_def not_seats_def sql_select_def ride_row_def)

section \<open>Completed and canceled rides\<close>

text \<open>
  Claim C5, for booking and the sweeper, and what cancel-ride does instead. Let a ride be
  completed or canceled, in a store with unique ride identifiers. No booking call and no
  sweeper run changes its row. No cancel-ride call changes its \<open>seats_available\<close> or any
  field but the status, and the status changes in one case only: cancel-ride by the ride's
  own driver sets it to canceled, also when it was completed. So after any history of calls
  the row is still there, either as it was or with the status canceled.
\<close>

theorem terminal_ride_frame:
  assumes keys: "distinct (map ride_id (rides d))"
    and ride: "r \<in> set (rides d)"
    and dead: "ride_status r = RideCompleted \<or> ride_status r = RideCanceled"
  shows "r \<in> set (rides (snd (book d uuid userId body)))
    \<and> r \<in> set (rides (sweeper before_now d))
    \<and> (if rid = ride_id r \<and> caller = ride_user_id r then r\<lparr>ride_status := RideCanceled\<rparr> else r)
        \<in> set (rides (snd (cancel_ride d caller rid)))
    \<and> (r \<in> set (rides (run d calls)) \<or> r\<lparr>ride_status := RideCanceled\<rparr> \<in> set (rides (run d calls)))"
  using terminal_ride_book [OF assms] terminal_ride_sweeper [OF ride dead]
    terminal_ride_cancel [OF keys ride] terminal_ride_run [OF assms]
  by blast

text \<open>
  A completed ride survives a booking on it, a booking on another ride, a sweeper run and a
  stranger's cancel-ride, one by one and in a row; its driver's cancel-ride makes it
  canceled, and a booking after that leaves it so.
\<close>

theorem terminal_ride_frame_witness:
  "ride_row ''r1'' ''driver'' ''2025-03-10'' ''14:00:00'' 3 RideCompleted \<in> set (rides (snd (book \<lparr>rides = [ride_row ''r1'' ''driver'' ''2025-03-10'' ''14:00:00'' 3 RideCompleted,
        ride_row ''r2'' ''driver'' ''2025-03-10'' ''14:00:00'' 2 RideOpen],
      bookings = [], ride_requests = []\<rparr>
        ''a'' ''alice'' \<lparr>rideId = Some ''r1'', seats = Some 1\<rparr>)))
   \<and> ride_row ''r1'' ''driver'' ''2025-03-10'' ''14:00:00'' 3 RideCompleted \<in> set (rides (snd (book \<lparr>rides = [ride_row ''r1'' ''driver'' ''2025-03-10'' ''14:00:00'' 3 RideCompleted,
        ride_row ''r2'' ''driver'' ''2025-03-10'' ''14:00:00'' 2 RideOpen],
      bookings = [], ride_requests = []\<rparr>
        ''a'' ''alice'' \<lparr>rideId = Some ''r2'', seats = Some 1\<rparr>)))
   \<and> ride_row ''r1'' ''driver'' ''2025-03-10'' ''14:00:00'' 3 RideCompleted \<in> set (rides (sweeper (\<lambda>s. s < ''2025-06-01 00:00:00'') \<lparr>rides = [ride_row ''r1'' ''driver'' ''2025-03-10'' ''14:00:00'' 3 RideCompleted,
        ride_row ''r2'' ''driver'' ''2025-03-10'' ''14:00:00'' 2 RideOpen],
      bookings = [], ride_requests = []\<rparr>))
   \<and> ride_row ''r1'' ''driver'' ''2025-03-10'' ''14:00:00'' 3 RideCompleted \<in> set (rides (snd (cancel_ride \<lparr>rides = [ride_row ''r1'' ''driver'' ''2025-03-10'' ''14:00:00'' 3 RideCompleted,
        ride_row ''r2'' ''driver'' ''2025-03-10'' ''14:00:00'' 2 RideOpen],
      bookings = [], ride_requests = []\<rparr> ''mallory'' ''r1'')))
   \<and> ride_row ''r1'' ''driver'' ''2025-03-10'' ''14:00:00'' 3 RideCanceled \<in> set (rides (snd (cancel_ride \<lparr>rides = [ride_row ''r1'' ''driver'' ''2025-03-10'' ''14:00:00'' 3 RideCompleted,
        ride_row ''r2'' ''driver'' ''2025-03-10'' ''14:00:00'' 2 RideOpen],
      bookings = [], ride_requests = []\<rparr> ''driver'' ''r1'')))
   \<and> ride_row ''r1'' ''driver'' ''2025-03-10'' ''14:00:00'' 3 RideCompleted \<in> set (rides (run \<lparr>rides = [ride_row ''r1'' ''driver'' ''2025-03-10'' ''14:00:00'' 3 RideCompleted,
        ride_row ''r2'' ''driver'' ''2025-03-10'' ''14:00:00'' 2 RideOpen],
      bookings = [], ride_requests = []\<rparr>
        [Book ''a'' ''alice'' \<lparr>rideId = Some ''r2'', seats = Some 1\<rparr>, Sweep (\<lambda>s. s < ''2025-06-01 00:00:00''), CancelRide ''mallory'' ''r1'']))
   \<and> ride_row ''r1'' ''driver'' ''2025-03-10'' ''14:00:00'' 3 RideCanceled \<in> set (rides (run \<lparr>rides = [ride_row ''r1'' ''driver'' ''2025-03-10'' ''14:00:00'' 3 RideCompleted,
        ride_row ''r2'' ''driver'' ''2025-03-10'' ''14:00:00'' 2 RideOpen],
      bookings = [], ride_requests = []\<rparr>
        [CancelRide ''driver'' ''r1'', Book ''a'' ''alice'' \<lparr>rideId = Some ''r1'', seats = Some 1\<rparr>]))"
proof -
  let ?d = "\<lparr>rides = [ride_row ''r1'' ''driver'' ''2025-03-10'' ''14:00:00'' 3 RideCompleted,
        ride_row ''r2'' ''driver'' ''2025-03-10'' ''14:00:00'' 2 RideOpen],
      bookings = [], ride_requests = []\<rparr>"
  let ?r = "ride_row ''r1'' ''driver'' ''2025-03-10'' ''14:00:00'' 3 RideCompleted"
  let ?now = "(\<lambda>s. s < ''2025-06-01 00:00:00'')"
  have keys: "distinct (map ride_id (rides ?d))" by (simp add: ride_row_def)
  have ride: "?r \<in> set (rides ?d)" by simp
  have dead: "ride_status ?r = RideCompleted \<or> ride_status ?r = RideCanceled"
    by (simp add: ride_row_def)
  note stranger = terminal_ride_frame [OF keys ride dead,
      of "''a''" "''alice''" "\<lparr>rideId = Some ''r1'', seats = Some 1\<rparr>" ?now "''r1''" "''mallory''"
         "[Book ''a'' ''alice'' \<lparr>rideId = Some ''r2'', seats = Some 1\<rparr>, Sweep (\<lambda>s. s < ''2025-06-01 00:00:00''), CancelRide ''mallory'' ''r1'']"]
  note owner = terminal_ride_frame [OF keys ride dead,
      of "''a''" "''alice''" "\<lparr>rideId = Some ''r2'', seats = Some 1\<rparr>" ?now "''r1''" "''driver''"
         "[CancelRide ''driver'' ''r1'', Book ''a'' ''alice'' \<lparr>rideId = Some ''r1'', seats = Some 1\<rparr>]"]
  have own: "ride_id ?r = ''r1''" "ride_user_id ?r = ''driver''"
    "?r\<lparr>ride_status := RideCanceled\<rparr> = ride_row ''r1'' ''driver'' ''2025-03-10'' ''14:00:00'' 3 RideCanceled"
    by (simp_all add: ride_row_def)
  have "?r\<lparr>ride_status := RideCanceled\<rparr> \<notin> set (rides (run ?d
        [Book ''a'' ''alice'' \<lparr>rideId = Some ''r2'', seats = Some 1\<rparr>, Sweep (\<lambda>s. s < ''2025-06-01 00:00:00''), CancelRide ''mallory'' ''r1'']))"
    by (simp add: ride_row_def run_def book_def cancel_ride_def sweeper_def scheduled_def
        sql_select_def sql_update_def sql_insert_def not_rideId_def not_seats_def
        less_char_def list_less_def)
  moreover have "?r \<notin> set (rides (run ?d
        [CancelRide ''driver'' ''r1'', Book ''a'' ''alice'' \<lparr>rideId = Some ''r1'', seats = Some 1\<rparr>]))"
    by (simp add: ride_row_def run_def book_def cancel_ride_def
        sql_select_def sql_update_def not_rideId_def not_seats_def)
  ultimately show ?thesis using stranger owner by (simp add: own)
qed

text \<open>
  A completed ride is not immutable: its driver's cancel-ride turns it into a canceled
  one.
\<close>

theorem cancel_completed_ride_counterexample:
  "cancel_ride \<lparr>rides = [ride_row ''r1'' ''driver'' ''2025-03-10'' ''14:00:00'' 3 RideCompleted],
         bookings = [], ride_requests = []\<rparr> ''driver'' ''r1''
   = (Success,
      \<lparr>rides = [ride_row ''r1'' ''driver'' ''2025-03-10'' ''14:00:00'' 3 RideCanceled],
       bookings = [], ride_requests = []\<rparr>)"
  by (simp add: cancel_ride_def sql_select_def sql_update_def ride_row_def)

section \<open>Cancelling a ride\<close>

text \<open>
  Claim C7. When no ride with the given identifier belongs to the caller (the ride is
  another driver's, or there is no such ride), cancel-ride answers the one 403 response
  and the store after the call is the store before it.
\<close>

theorem cancel_ride_not_owner:
  assumes "\<forall>r\<in>set (rides d). ride_id r = rid \<longrightarrow> ride_user_id r \<noteq> caller"
  shows "cancel_ride d caller rid = (Failure Forbidden, d)"
proof -
  from assms have "sql_select (\<lambda>r. ride_id r = rid \<and> ride_user_id r = caller) (rides d) = []"
    by (intro select_empty) simp
  then show ?thesis by (simp add: cancel_ride_def)
qed

text \<open>
  Another driver's ride and a missing ride give the same response and leave the store as it
  was.
\<close>

theorem cancel_ride_not_owner_witness:
  "cancel_ride \<lparr>rides = [ride_row ''r1'' ''driver'' ''2025-03-10'' ''14:00:00'' 3 RideOpen],
      bookings = [\<lparr>booking_id = ''a'', booking_user_id = ''alice'', booking_ride_id = ''r1'',
        booking_seats = 1, booking_status = BookingPending\<rparr>], ride_requests = []\<rparr> ''mallory'' ''r1''
   = (Failure Forbidden, \<lparr>rides = [ride_row ''r1'' ''driver'' ''2025-03-10'' ''14:00:00'' 3 RideOpen],
      bookings = [\<lparr>booking_id = ''a'', booking_user_id = ''alice'', booking_ride_id = ''r1'',
        booking_seats = 1, booking_status = BookingPending\<rparr>], ride_requests = []\<rparr>)
   \<and> cancel_ride \<lparr>rides = [ride_row ''r1'' ''driver'' ''2025-03-10'' ''14:00:00'' 3 RideOpen],
      bookings = [\<lparr>booking_id = ''a'', booking_user_id = ''alice'', booking_ride_id = ''r1'',
        booking_seats = 1, booking_status = BookingPending\<rparr>], ride_requests = []\<rparr> ''mallory'' ''r9''
   = (Failure Forbidden, \<lparr>rides = [ride_row ''r1'' ''driver'' ''2025-03-10'' ''14:00:00'' 3 RideOpen],
      bookings = [\<lparr>booking_id = ''a'', booking_user_id = ''alice'', booking_ride_id = ''r1'',
        booking_seats = 1, booking_status = BookingPending\<rparr>], ride_requests = []\<rparr>)"
  using cancel_ride_not_owner [of "\<lparr>rides = [ride_row ''r1'' ''driver'' ''2025-03-10'' ''14:00:00'' 3 RideOpen],
      bookings = [\<lparr>booking_id = ''a'', booking_user_id = ''alice'', booking_ride_id = ''r1'',
        booking_seats = 1, booking_status = BookingPending\<rparr>], ride_requests = []\<rparr>" "''r1''" "''mallory''"]
    cancel_ride_not_owner [of "\<lparr>rides = [ride_row ''r1'' ''driver'' ''2025-03-10'' ''14:00:00'' 3 RideOpen],
      bookings = [\<lparr>booking_id = ''a'', booking_user_id = ''alice'', booking_ride_id = ''r1'',
        booking_seats = 1, booking_status = BookingPending\<rparr>], ride_requests = []\<rparr>" "''r9''" "''mallory''"]
  by (simp add: ride_row_def)

text \<open>
  Claim C8. When the caller is the driver of the ride (ride identifiers unique),
  cancel-ride succeeds and the store afterwards is the store before with the status of that
  one row set to canceled, whatever it was: \<open>seats_available\<close> and the other fields of the
  row, the other rides, all bookings and all ride requests are unchanged.
\<close>

theorem cancel_ride_owner:
  assumes keys: "distinct (map ride_id (rides d))"
    and i: "i < length (rides d)"
    and owner: "ride_user_id (rides d ! i) = caller"
  shows "cancel_ride d caller (ride_id (rides d ! i)) =
     (Success, d\<lparr>rides := (rides d)[i := (rides d ! i)\<lparr>ride_status := RideCanceled\<rparr>]\<rparr>)"
proof -
  have "sql_select (\<lambda>r. ride_id r = ride_id (rides d ! i) \<and> ride_user_id r = caller) (rides d) \<noteq> []"
    using i owner by (intro select_nonempty [of "rides d ! i"]) simp_all
  then show ?thesis
    using keys i by (simp add: cancel_ride_def Let_def update_nth)
qed

text \<open>
  A full ride with two bookings is canceled: 0 seats stay available and both bookings stay
  as they were.
\<close>

theorem cancel_ride_owner_witness:
  "cancel_ride \<lparr>rides = [ride_row ''r1'' ''driver'' ''2025-03-10'' ''14:00:00'' 0 RideFull,
        ride_row ''r2'' ''dora'' ''2025-03-10'' ''14:00:00'' 2 RideOpen],
      bookings = [\<lparr>booking_id = ''a'', booking_user_id = ''alice'', booking_ride_id = ''r1'',
        booking_seats = 2, booking_status = BookingPending\<rparr>,
        \<lparr>booking_id = ''c'', booking_user_id = ''carol'', booking_ride_id = ''r1'',
        booking_seats = 1, booking_status = BookingConfirmed\<rparr>], ride_requests = []\<rparr> ''driver'' ''r1''
   = (Success, \<lparr>rides = [ride_row ''r1'' ''driver'' ''2025-03-10'' ''14:00:00'' 0 RideCanceled,
        ride_row ''r2'' ''dora'' ''2025-03-10'' ''14:00:00'' 2 RideOpen],
      bookings = [\<lparr>booking_id = ''a'', booking_user_id = ''alice'', booking_ride_id = ''r1'',
        booking_seats = 2, booking_status = BookingPending\<rparr>,
        \<lparr>booking_id = ''c'', booking_user_id = ''carol'', booking_ride_id = ''r1'',
        booking_seats = 1, booking_status = BookingConfirmed\<rparr>], ride_requests = []\<rparr>)"
  using cancel_ride_owner [of "\<lparr>rides = [ride_row ''r1'' ''driver'' ''2025-03-10'' ''14:00:00'' 0 RideFull,
        ride_row ''r2'' ''dora'' ''2025-03-10'' ''14:00:00'' 2 RideOpen],
      bookings = [\<lparr>booking_id = ''a'', booking_user_id = ''alice'', booking_ride_id = ''r1'',
        booking_seats = 2, booking_status = BookingPending\<rparr>,
        \<lparr>booking_id = ''c'', booking_user_id = ''carol'', booking_ride_id = ''r1'',
        booking_seats = 1, booking_status = BookingConfirmed\<rparr>], ride_requests = []\<rparr>" 0 "''driver''"]
  by (simp add: ride_row_def)

section \<open>Accepting and rejecting ride requests\<close>

text \<open>
  Claim C9, as the handlers have it. A ride request is changed only by its addressed driver: accepted and
  rejected by any other caller fail with the 403 response and change nothing. For the
  addressed driver both calls succeed whatever the request's current status, and set it to
  accepted, respectively rejected; nothing else in the store changes. The status is
  therefore not final after its first transition.
\<close>

theorem request_status_overwritten:
  assumes keys: "distinct (map request_id (ride_requests d))"
    and i: "i < length (ride_requests d)"
    and driver: "request_driver_id (ride_requests d ! i) = driver"
  shows "accepted d driver (request_id (ride_requests d ! i)) =
       (Success, d\<lparr>ride_requests := (ride_requests d)
          [i := (ride_requests d ! i)\<lparr>request_status := RequestAccepted\<rparr>]\<rparr>)
     \<and> rejected d driver (request_id (ride_requests d ! i)) =
       (Success, d\<lparr>ride_requests := (ride_requests d)
          [i := (ride_requests d ! i)\<lparr>request_status := RequestRejected\<rparr>]\<rparr>)
     \<and> (other \<noteq> driver \<longrightarrow>
           accepted d other (request_id (ride_requests d ! i)) = (Failure Forbidden, d)
         \<and> rejected d other (request_id (ride_requests d ! i)) = (Failure Forbidden, d))"
proof (intro conjI impI)
  let ?q = "ride_requests d ! i"
  have mine: "sql_select (\<lambda>q. request_id q = request_id ?q \<and> request_driver_id q = driver)
          (ride_requests d) \<noteq> []"
    using i driver by (intro select_nonempty [of ?q]) simp_all
  show "accepted d driver (request_id ?q) =
       (Success, d\<lparr>ride_requests := (ride_requests d)[i := ?q\<lparr>request_status := RequestAccepted\<rparr>]\<rparr>)"
    using mine keys i by (simp add: accepted_def Let_def update_nth)
  show "rejected d driver (request_id ?q) =
       (Success, d\<lparr>ride_requests := (ride_requests d)[i := ?q\<lparr>request_status := RequestRejected\<rparr>]\<rparr>)"
    using mine keys i by (simp add: rejected_def Let_def update_nth)
  assume other: "other \<noteq> driver"
  have "\<forall>q\<in>set (ride_requests d). \<not> (request_id q = request_id ?q \<and> request_driver_id q = other)"
  proof (intro ballI notI)
    fix q assume q: "q \<in> set (ride_requests d)"
      "request_id q = request_id ?q \<and> request_driver_id q = other"
    with keys i have "q = ?q" by (auto simp: distinct_map inj_on_def)
    with q driver other show False by simp
  qed
  then have none: "sql_select (\<lambda>q. request_id q = request_id ?q \<and> request_driver_id q = other)
          (ride_requests d) = []"
    by (rule select_empty)
  show "accepted d other (request_id ?q) = (Failure Forbidden, d)"
    using none by (simp add: accepted_def)
  show "rejected d other (request_id ?q) = (Failure Forbidden, d)"
    using none by (simp add: rejected_def)
qed

text \<open>
  A rejected request is accepted, an accepted one rejected, and a stranger is refused.
\<close>

theorem request_status_overwritten_witness:
  "accepted \<lparr>rides = [],
      bookings = [], ride_requests = [\<lparr>request_id = ''q1'', request_ride_id = ''r1'', request_passenger_id = ''alice'',
        request_driver_id = ''driver'', request_vehicle_id = ''v1'', request_status = RequestRejected\<rparr>]\<rparr> ''driver'' ''q1''
   = (Success, \<lparr>rides = [],
      bookings = [], ride_requests = [\<lparr>request_id = ''q1'', request_ride_id = ''r1'', request_passenger_id = ''alice'',
        request_driver_id = ''driver'', request_vehicle_id = ''v1'', request_status = RequestAccepted\<rparr>]\<rparr>)
   \<and> rejected \<lparr>rides = [],
      bookings = [], ride_requests = [\<lparr>request_id = ''q1'', request_ride_id = ''r1'', request_passenger_id = ''alice'',
        request_driver_id = ''driver'', request_vehicle_id = ''v1'', request_status = RequestAccepted\<rparr>]\<rparr> ''driver'' ''q1''
   = (Success, \<lparr>rides = [],
      bookings = [], ride_requests = [\<lparr>request_id = ''q1'', request_ride_id = ''r1'', request_passenger_id = ''alice'',
        request_driver_id = ''driver'', request_vehicle_id = ''v1'', request_status = RequestRejected\<rparr>]\<rparr>)
   \<and> accepted \<lparr>rides = [],
      bookings = [], ride_requests = [\<lparr>request_id = ''q1'', request_ride_id = ''r1'', request_passenger_id = ''alice'',
        request_driver_id = ''driver'', request_vehicle_id = ''v1'', request_status = RequestRejected\<rparr>]\<rparr> ''mallory'' ''q1''
   = (Failure Forbidden, \<lparr>rides = [],
      bookings = [], ride_requests = [\<lparr>request_id = ''q1'', request_ride_id = ''r1'', request_passenger_id = ''alice'',
        request_driver_id = ''driver'', request_vehicle_id = ''v1'', request_status = RequestRejected\<rparr>]\<rparr>)"
  using request_status_overwritten [of "\<lparr>rides = [],
      bookings = [], ride_requests = [\<lparr>request_id = ''q1'', request_ride_id = ''r1'', request_passenger_id = ''alice'',
        request_driver_id = ''driver'', request_vehicle_id = ''v1'', request_status = RequestRejected\<rparr>]\<rparr>" 0 "''driver''" "''mallory''"]
    request_status_overwritten [of "\<lparr>rides = [],
      bookings = [], ride_requests = [\<lparr>request_id = ''q1'', request_ride_id = ''r1'', request_passenger_id = ''alice'',
        request_driver_id = ''driver'', request_vehicle_id = ''v1'', request_status = RequestAccepted\<rparr>]\<rparr>" 0 "''driver''" "''mallory''"]
  by simp

text \<open>
  A request is not final after its first transition: a pending request that the driver
  rejects and then accepts changes status twice.
\<close>

theorem request_reaccepted_counterexample:
  "rejected \<lparr>rides = [],
      bookings = [], ride_requests = [\<lparr>request_id = ''q1'', request_ride_id = ''r1'', request_passenger_id = ''alice'',
        request_driver_id = ''driver'', request_vehicle_id = ''v1'', request_status = RequestPending\<rparr>]\<rparr> ''driver'' ''q1''
   = (Success, \<lparr>rides = [],
      bookings = [], ride_requests = [\<lparr>request_id = ''q1'', request_ride_id = ''r1'', request_passenger_id = ''alice'',
        request_driver_id = ''driver'', request_vehicle_id = ''v1'', request_status = RequestRejected\<rparr>]\<rparr>)
   \<and> accepted \<lparr>rides = [],
      bookings = [], ride_requests = [\<lparr>request_id = ''q1'', request_ride_id = ''r1'', request_passenger_id = ''alice'',
        request_driver_id = ''driver'', request_vehicle_id = ''v1'', request_status = RequestRejected\<rparr>]\<rparr> ''driver'' ''q1''
   = (Success, \<lparr>rides = [],
      bookings = [], ride_requests = [\<lparr>request_id = ''q1'', request_ride_id = ''r1'', request_passenger_id = ''alice'',
        request_driver_id = ''driver'', request_vehicle_id = ''v1'', request_status = RequestAccepted\<rparr>]\<rparr>)"
  by (simp add: rejected_def accepted_def sql_select_def sql_update_def)

section \<open>The sweeper\<close>

subsection \<open>Date-time texts\<close>

lemma text_less_append:
  fixes d1 d2 t1 t2 :: string
  shows "length d1 = length d2 \<Longrightarrow> (d1 @ t1 < d2 @ t2) = (d1 < d2 \<or> d1 = d2 \<and> t1 < t2)"
  by (induction d1 d2 rule: list_induct2) auto

lemma scheduled_before:
  assumes "length (ride_date r) = length now_date"
  shows "store_before (now_date @ '' '' @ now_time) (scheduled r) =
     (ride_date r < now_date \<or> ride_date r = now_date \<and> ride_time r < now_time)"
  using text_less_append [OF assms, of "'' '' @ ride_time r" "'' '' @ now_time"]
  by (simp add: store_before_def scheduled_def)

subsection \<open>One run and two runs\<close>

text \<open>
  Claim C10. Let \<^verbatim>\<open>NOW()\<close> print as the date \<open>now_date\<close>, a space and the time \<open>now_time\<close>, and
  let the dates of the rides have the width of \<open>now_date\<close>, as the values of a DATE column
  do. A ride is in the past when its date is before \<open>now_date\<close>, or is \<open>now_date\<close> with its
  time before \<open>now_time\<close>. One sweeper run keeps the number and order of rides and leaves
  bookings and ride requests alone. A ride in the past whose status is neither completed
  nor canceled gets the status completed and keeps its other fields; every other ride is
  unchanged; so the rides that change are exactly those. A second run at the same moment
  changes nothing: two runs equal one.
\<close>

theorem sweeper_completes_past_rides:
  assumes dates: "\<forall>r\<in>set (rides d). length (ride_date r) = length now_date"
  shows "length (rides (sweeper (store_before (now_date @ '' '' @ now_time)) d)) = length (rides d)
   \<and> bookings (sweeper (store_before (now_date @ '' '' @ now_time)) d) = bookings d
   \<and> ride_requests (sweeper (store_before (now_date @ '' '' @ now_time)) d) = ride_requests d
   \<and> (\<forall>i<length (rides d).
        rides (sweeper (store_before (now_date @ '' '' @ now_time)) d) ! i =
          (if (ride_date (rides d ! i) < now_date
                 \<or> ride_date (rides d ! i) = now_date \<and> ride_time (rides d ! i) < now_time)
               \<and> ride_status (rides d ! i) \<noteq> RideCompleted
               \<and> ride_status (rides d ! i) \<noteq> RideCanceled
           then (rides d ! i)\<lparr>ride_status := RideCompleted\<rparr> else rides d ! i)
        \<and> ((rides (sweeper (store_before (now_date @ '' '' @ now_time)) d) ! i \<noteq> rides d ! i) =
           ((ride_date (rides d ! i) < now_date
                 \<or> ride_date (rides d ! i) = now_date \<and> ride_time (rides d ! i) < now_time)
               \<and> ride_status (rides d ! i) \<noteq> RideCompleted
               \<and> ride_status (rides d ! i) \<noteq> RideCanceled)))
   \<and> sweeper (store_before (now_date @ '' '' @ now_time))
        (sweeper (store_before (now_date @ '' '' @ now_time)) d)
      = sweeper (store_before (now_date @ '' '' @ now_time)) d"
proof (intro conjI allI impI)
  let ?now = "store_before (now_date @ '' '' @ now_time)"
  show "length (rides (sweeper ?now d)) = length (rides d)"
    by (simp add: sweeper_def sql_update_def)
  show "bookings (sweeper ?now d) = bookings d" by (simp add: sweeper_def)
  show "ride_requests (sweeper ?now d) = ride_requests d" by (simp add: sweeper_def)
  show "sweeper ?now (sweeper ?now d) = sweeper ?now d"
    by (simp add: sweeper_def sql_update_def scheduled_def)
next
  let ?now = "store_before (now_date @ '' '' @ now_time)"
  fix i assume i: "i < length (rides d)"
  with dates have "length (ride_date (rides d ! i)) = length now_date" by simp
  then have past: "?now (scheduled (rides d ! i)) =
     (ride_date (rides d ! i) < now_date
        \<or> ride_date (rides d ! i) = now_date \<and> ride_time (rides d ! i) < now_time)"
    by (rule scheduled_before)
  from i have "rides (sweeper ?now d) ! i =
      (if ?now (scheduled (rides d ! i)) \<and> ride_status (rides d ! i) \<noteq> RideCompleted
               \<and> ride_status (rides d ! i) \<noteq> RideCanceled
           then (rides d ! i)\<lparr>ride_status := RideCompleted\<rparr> else rides d ! i)"
    by (simp add: sweeper_def sql_update_def)
  then show row: "rides (sweeper ?now d) ! i =
          (if (ride_date (rides d ! i) < now_date
                 \<or> ride_date (rides d ! i) = now_date \<and> ride_time (rides d ! i) < now_time)
               \<and> ride_status (rides d ! i) \<noteq> RideCompleted
               \<and> ride_status (rides d ! i) \<noteq> RideCanceled
           then (rides d ! i)\<lparr>ride_status := RideCompleted\<rparr> else rides d ! i)"
    unfolding past .
  have "(rides d ! i)\<lparr>ride_status := RideCompleted\<rparr> \<noteq> rides d ! i"
    if "ride_status (rides d ! i) \<noteq> RideCompleted"
    using that by (metis ride.select_convs(8) ride.surjective ride.update_convs(8))
  with row show "(rides (sweeper ?now d) ! i \<noteq> rides d ! i) =
           ((ride_date (rides d ! i) < now_date
                 \<or> ride_date (rides d ! i) = now_date \<and> ride_time (rides d ! i) < now_time)
               \<and> ride_status (rides d ! i) \<noteq> RideCompleted
               \<and> ride_status (rides d ! i) \<noteq> RideCanceled)"
    by auto
qed

text \<open>
  A run on 1 June 2025 at noon. The open ride of 10 March, the full ride of the same day at
  11:59:59 and the open ride of 31 May at 23:00 become completed; the ride at noon sharp, the
  ride one second later, the ride of 1 September and the canceled ride stay; a second run
  changes nothing.
\<close>

theorem sweeper_completes_past_rides_witness:
  "sweeper (store_before (''2025-06-01'' @ '' '' @ ''12:00:00''))
     \<lparr>rides = [ride_row ''r1'' ''driver'' ''2025-03-10'' ''14:00:00'' 3 RideOpen,
        ride_row ''r2'' ''driver'' ''2025-09-01'' ''08:00:00'' 2 RideFull,
        ride_row ''r3'' ''driver'' ''2025-03-10'' ''14:00:00'' 1 RideCanceled,
        ride_row ''r4'' ''driver'' ''2025-06-01'' ''12:00:00'' 2 RideOpen,
        ride_row ''r5'' ''driver'' ''2025-06-01'' ''11:59:59'' 0 RideFull,
        ride_row ''r6'' ''driver'' ''2025-05-31'' ''23:00:00'' 1 RideOpen,
        ride_row ''r7'' ''driver'' ''2025-06-01'' ''12:00:01'' 1 RideOpen],
      bookings = [\<lparr>booking_id = ''a'', booking_user_id = ''alice'', booking_ride_id = ''r1'',
        booking_seats = 1, booking_status = BookingPending\<rparr>], ride_requests = []\<rparr>
   = \<lparr>rides = [ride_row ''r1'' ''driver'' ''2025-03-10'' ''14:00:00'' 3 RideCompleted,
        ride_row ''r2'' ''driver'' ''2025-09-01'' ''08:00:00'' 2 RideFull,
        ride_row ''r3'' ''driver'' ''2025-03-10'' ''14:00:00'' 1 RideCanceled,
        ride_row ''r4'' ''driver'' ''2025-06-01'' ''12:00:00'' 2 RideOpen,
        ride_row ''r5'' ''driver'' ''2025-06-01'' ''11:59:59'' 0 RideCompleted,
        ride_row ''r6'' ''driver'' ''2025-05-31'' ''23:00:00'' 1 RideCompleted,
        ride_row ''r7'' ''driver'' ''2025-06-01'' ''12:00:01'' 1 RideOpen],
      bookings = [\<lparr>booking_id = ''a'', booking_user_id = ''alice'', booking_ride_id = ''r1'',
        booking_seats = 1, booking_status = BookingPending\<rparr>], ride_requests = []\<rparr>
   \<and> sweeper (store_before (''2025-06-01'' @ '' '' @ ''12:00:00''))
      (sweeper (store_before (''2025-06-01'' @ '' '' @ ''12:00:00''))
        \<lparr>rides = [ride_row ''r1'' ''driver'' ''2025-03-10'' ''14:00:00'' 3 RideOpen,
        ride_row ''r2'' ''driver'' ''2025-09-01'' ''08:00:00'' 2 RideFull,
        ride_row ''r3'' ''driver'' ''2025-03-10'' ''14:00:00'' 1 RideCanceled,
        ride_row ''r4'' ''driver'' ''2025-06-01'' ''12:00:00'' 2 RideOpen,
        ride_row ''r5'' ''driver'' ''2025-06-01'' ''11:59:59'' 0 RideFull,
        ride_row ''r6'' ''driver'' ''2025-05-31'' ''23:00:00'' 1 RideOpen,
        ride_row ''r7'' ''driver'' ''2025-06-01'' ''12:00:01'' 1 RideOpen],
      bookings = [\<lparr>booking_id = ''a'', booking_user_id = ''alice'', booking_ride_id = ''r1'',
        booking_seats = 1, booking_status = BookingPending\<rparr>], ride_requests = []\<rparr>)
   = \<lparr>rides = [ride_row ''r1'' ''driver'' ''2025-03-10'' ''14:00:00'' 3 RideCompleted,
        ride_row ''r2'' ''driver'' ''2025-09-01'' ''08:00:00'' 2 RideFull,
        ride_row ''r3'' ''driver'' ''2025-03-10'' ''14:00:00'' 1 RideCanceled,
        ride_row ''r4'' ''driver'' ''2025-06-01'' ''12:00:00'' 2 RideOpen,
        ride_row ''r5'' ''driver'' ''2025-06-01'' ''11:59:59'' 0 RideCompleted,
        ride_row ''r6'' ''driver'' ''2025-05-31'' ''23:00:00'' 1 RideCompleted,
        ride_row ''r7'' ''driver'' ''2025-06-01'' ''12:00:01'' 1 RideOpen],
      bookings = [\<lparr>booking_id = ''a'', booking_user_id = ''alice'', booking_ride_id = ''r1'',
        booking_seats = 1, booking_status = BookingPending\<rparr>], ride_requests = []\<rparr>"
proof -
  let ?d = "\<lparr>rides = [ride_row ''r1'' ''driver'' ''2025-03-10'' ''14:00:00'' 3 RideOpen,
        ride_row ''r2'' ''driver'' ''2025-09-01'' ''08:00:00'' 2 RideFull,
        ride_row ''r3'' ''driver'' ''2025-03-10'' ''14:00:00'' 1 RideCanceled,
        ride_row ''r4'' ''driver'' ''2025-06-01'' ''12:00:00'' 2 RideOpen,
        ride_row ''r5'' ''driver'' ''2025-06-01'' ''11:59:59'' 0 RideFull,
        ride_row ''r6'' ''driver'' ''2025-05-31'' ''23:00:00'' 1 RideOpen,
        ride_row ''r7'' ''driver'' ''2025-06-01'' ''12:00:01'' 1 RideOpen],
      bookings = [\<lparr>booking_id = ''a'', booking_user_id = ''alice'', booking_ride_id = ''r1'',
        booking_seats = 1, booking_status = BookingPending\<rparr>], ride_requests = []\<rparr>"
  let ?now = "store_before (''2025-06-01'' @ '' '' @ ''12:00:00'')"
  have dates: "\<forall>r\<in>set (rides ?d). length (ride_date r) = length ''2025-06-01''"
    by (simp add: ride_row_def)
  note facts = sweeper_completes_past_rides [OF dates, of "''12:00:00''"]
  have len: "length (rides (sweeper ?now ?d)) = 7" using facts by simp
  have rows: "\<forall>i<7. rides (sweeper ?now ?d) ! i =
          (if (ride_date (rides ?d ! i) < ''2025-06-01''
                 \<or> ride_date (rides ?d ! i) = ''2025-06-01'' \<and> ride_time (rides ?d ! i) < ''12:00:00'')
               \<and> ride_status (rides ?d ! i) \<noteq> RideCompleted
               \<and> ride_status (rides ?d ! i) \<noteq> RideCanceled
           then (rides ?d ! i)\<lparr>ride_status := RideCompleted\<rparr> else rides ?d ! i)"
    using facts by simp
  have idem: "sweeper ?now (sweeper ?now ?d) = sweeper ?now ?d" using facts by blast
  have "rides (sweeper ?now ?d) = rides (\<lparr>rides = [ride_row ''r1'' ''driver'' ''2025-03-10'' ''14:00:00'' 3 RideCompleted,
        ride_row ''r2'' ''driver'' ''2025-09-01'' ''08:00:00'' 2 RideFull,
        ride_row ''r3'' ''driver'' ''2025-03-10'' ''14:00:00'' 1 RideCanceled,
        ride_row ''r4'' ''driver'' ''2025-06-01'' ''12:00:00'' 2 RideOpen,
        ride_row ''r5'' ''driver'' ''2025-06-01'' ''11:59:59'' 0 RideCompleted,
        ride_row ''r6'' ''driver'' ''2025-05-31'' ''23:00:00'' 1 RideCompleted,
        ride_row ''r7'' ''driver'' ''2025-06-01'' ''12:00:01'' 1 RideOpen],
      bookings = [\<lparr>booking_id = ''a'', booking_user_id = ''alice'', booking_ride_id = ''r1'',
        booking_seats = 1, booking_status = BookingPending\<rparr>], ride_requests = []\<rparr>)"
  proof (rule nth_equalityI)
    show "length (rides (sweeper ?now ?d)) = length (rides (\<lparr>rides = [ride_row ''r1'' ''driver'' ''2025-03-10'' ''14:00:00'' 3 RideCompleted,
        ride_row ''r2'' ''driver'' ''2025-09-01'' ''08:00:00'' 2 RideFull,
        ride_row ''r3'' ''driver'' ''2025-03-10'' ''14:00:00'' 1 RideCanceled,
        ride_row ''r4'' ''driver'' ''2025-06-01'' ''12:00:00'' 2 RideOpen,
        ride_row ''r5'' ''driver'' ''2025-06-01'' ''11:59:59'' 0 RideCompleted,
        ride_row ''r6'' ''driver'' ''2025-05-31'' ''23:00:00'' 1 RideCompleted,
        ride_row ''r7'' ''driver'' ''2025-06-01'' ''12:00:01'' 1 RideOpen],
      bookings = [\<lparr>booking_id = ''a'', booking_user_id = ''alice'', booking_ride_id = ''r1'',
        booking_seats = 1, booking_status = BookingPending\<rparr>], ride_requests = []\<rparr>))"
      using len by simp
  next
    fix i assume "i < length (rides (sweeper ?now ?d))"
    with len have "i \<in> {0, 1, 2, 3, 4, 5, 6}" by auto
    then show "rides (sweeper ?now ?d) ! i = rides (\<lparr>rides = [ride_row ''r1'' ''driver'' ''2025-03-10'' ''14:00:00'' 3 RideCompleted,
        ride_row ''r2'' ''driver'' ''2025-09-01'' ''08:00:00'' 2 RideFull,
        ride_row ''r3'' ''driver'' ''2025-03-10'' ''14:00:00'' 1 RideCanceled,
        ride_row ''r4'' ''driver'' ''2025-06-01'' ''12:00:00'' 2 RideOpen,
        ride_row ''r5'' ''driver'' ''2025-06-01'' ''11:59:59'' 0 RideCompleted,
        ride_row ''r6'' ''driver'' ''2025-05-31'' ''23:00:00'' 1 RideCompleted,
        ride_row ''r7'' ''driver'' ''2025-06-01'' ''12:00:01'' 1 RideOpen],
      bookings = [\<lparr>booking_id = ''a'', booking_user_id = ''alice'', booking_ride_id = ''r1'',
        booking_seats = 1, booking_status = BookingPending\<rparr>], ride_requests = []\<rparr>) ! i"
      using rows by (auto simp: ride_row_def less_char_def list_less_def)
  qed
  moreover have "bookings (sweeper ?now ?d) = bookings ?d"
    "ride_requests (sweeper ?now ?d) = ride_requests ?d" using facts by simp_all
  ultimately have "sweeper ?now ?d = \<lparr>rides = [ride_row ''r1'' ''driver'' ''2025-03-10'' ''14:00:00'' 3 RideCompleted,
        ride_row ''r2'' ''driver'' ''2025-09-01'' ''08:00:00'' 2 RideFull,
        ride_row ''r3'' ''driver'' ''2025-03-10'' ''14:00:00'' 1 RideCanceled,
        ride_row ''r4'' ''driver'' ''2025-06-01'' ''12:00:00'' 2 RideOpen,
        ride_row ''r5'' ''driver'' ''2025-06-01'' ''11:59:59'' 0 RideCompleted,
        ride_row ''r6'' ''driver'' ''2025-05-31'' ''23:00:00'' 1 RideCompleted,
        ride_row ''r7'' ''driver'' ''2025-06-01'' ''12:00:01'' 1 RideOpen],
      bookings = [\<lparr>booking_id = ''a'', booking_user_id = ''alice'', booking_ride_id = ''r1'',
        booking_seats = 1, booking_status = BookingPending\<rparr>], ride_requests = []\<rparr>"
    by (intro db.equality) simp_all
  with idem show ?thesis by simp
qed

end
